theory Spec2Isabelle
  imports Main
begin

section \<open>Data model (src/types/index.ts)\<close>

text \<open>
  Dates and durations are integers: milliseconds since the epoch (\<open>Date\<close>,
  \<open>Date.now()\<close>) and millisecond counts. Every operation that reads the clock takes
  the reading as its argument \<open>now\<close>; the several reads one call makes are taken at the
  same instant.
\<close>

type_synonym time = int

text \<open>\<open>User.id\<close> is \<open>string | number\<close>; \<open>===\<close> never identifies a string with a number.\<close>

datatype user_id = UserStr string | UserNum int

record User =
  user_id :: user_id
  user_email :: "string option"

record TokenPair =
  accessToken :: string
  refreshToken :: string

text \<open>\<open>TokenConfig\<close> as the caller writes it and \<open>Required<TokenConfig>\<close> as the context holds it.\<close>

record TokenConfig =
  cfg_accessTokenSecret :: string
  cfg_refreshTokenSecret :: string
  cfg_accessTokenExpiry :: "string option"
  cfg_refreshTokenExpiry :: "string option"

record RequiredTokenConfig =
  accessTokenSecret :: string
  refreshTokenSecret :: string
  accessTokenExpiry :: string
  refreshTokenExpiry :: string

record RefreshTokenData =
  rt_id :: string
  rt_userId :: user_id
  rt_token :: string
  rt_deviceFingerprint :: "string option"
  rt_ipAddress :: "string option"
  rt_userAgent :: "string option"
  isUsed :: bool
  createdAt :: time
  expiresAt :: time

record SecurityOptions =
  opt_enableTokenRotation :: "bool option"
  opt_enableConcurrentUsageDetection :: "bool option"
  opt_enableDeviceFingerprinting :: "bool option"
  opt_enableLocationTracking :: "bool option"
  opt_maxConcurrentTokens :: "int option"

record RequiredSecurityOptions =
  enableTokenRotation :: bool
  enableConcurrentUsageDetection :: bool
  enableDeviceFingerprinting :: bool
  enableLocationTracking :: bool
  maxConcurrentTokens :: int

record DeviceInfo =
  fingerprint :: "string option"
  ipAddress :: "string option"
  userAgent :: "string option"
  location :: "string option"

text \<open>
  The decoded payload of a token (\<open>AccessTokenPayload\<close>, \<open>RefreshTokenPayload\<close>, and the
  untyped \<open>any\<close> of the older revision): every field but the subject may be missing.
\<close>

record claims =
  c_userId :: user_id
  c_type :: "string option"
  c_email :: "string option"
  c_jti :: "string option"
  c_deviceHash :: "string option"
  c_iat :: "int option"
  c_exp :: "int option"

text \<open>Every \<open>throw\<close> and every failed \<open>Result\<close> of the library, by its message.\<close>

datatype error =
    JwtError string
  | InvalidTokenType
  | InvalidOrExpiredAccessToken
  | InvalidOrExpiredRefreshToken
  | InvalidRefreshToken
  | ConcurrentUsageDetected
  | DeviceMismatch
  | RefreshTokenExpired
  | InvalidExpiryFormat string

text \<open>
  The context without its storage: the storage is the state the operations pass along.
\<close>

record AuthContext =
  config :: RequiredTokenConfig
  securityOptions :: RequiredSecurityOptions

section \<open>The packages the library calls\<close>

text \<open>
  \<open>jsonwebtoken\<close> and \<open>crypto\<close> are not part of the repository: they are parameters.
  \<open>sign\<close> gets the payload, the secret, the \<open>expiresIn\<close> option and the clock, and
  returns the token or the message of the error it throws; \<open>verify\<close> gets the token, the
  secret and the clock; \<open>sha256hex\<close> is
  \<open>crypto.createHash("sha256").update(s).digest("hex")\<close>. The value of
  \<open>crypto.randomUUID()\<close> is an argument \<open>jti\<close> of the operation that draws it.
\<close>

datatype expires_in = ExpiresInString string | ExpiresInNumber int

record packages =
  sign :: "claims \<Rightarrow> string \<Rightarrow> expires_in \<Rightarrow> time \<Rightarrow> string + string"
  verify :: "string \<Rightarrow> string \<Rightarrow> time \<Rightarrow> string + claims"
  sha256hex :: "string \<Rightarrow> string"

text \<open>JavaScript truthiness of an optional string: present and not empty.\<close>

fun truthy :: "string option \<Rightarrow> bool" where
  "truthy None = False"
| "truthy (Some s) = (s \<noteq> [])"

section \<open>src/utils/helper.ts\<close>

text \<open>The file is kept as \<^verbatim>\<open>unnamed/part_001\<close>.\<close>

definition isDigit :: "char \<Rightarrow> bool" where
  "isDigit c = (c \<in> set ''0123456789'')"

definition digitValue :: "char \<Rightarrow> int" where
  "digitValue c = int (of_char c) - 48"

text \<open>
  \<open>parseInt\<close> on a string of decimal digits. JavaScript numbers are doubles; the model
  computes with integers, which agree with them below \<open>2^53\<close>.
\<close>

definition parseInt :: "string \<Rightarrow> int" where
  "parseInt ds = foldl (\<lambda>n c. 10 * n + digitValue c) 0 ds"

fun units :: "char \<Rightarrow> int option" where
  "units c =
     (if c = CHR ''s'' then Some 1000
      else if c = CHR ''m'' then Some (60 * 1000)
      else if c = CHR ''h'' then Some (60 * 60 * 1000)
      else if c = CHR ''d'' then Some (24 * 60 * 60 * 1000)
      else None)"

text \<open>
  \<open>expiry.match(/^(\d+)([smhd])$/)\<close>: one or more digits, then one unit letter, and
  nothing else.
\<close>

definition parseExpiry :: "string \<Rightarrow> error + int" where
  "parseExpiry expiry =
     (if expiry = [] then Inl (InvalidExpiryFormat expiry)
      else
        (let amount = butlast expiry; unit = last expiry in
         if amount = [] then Inl (InvalidExpiryFormat expiry)
         else if list_all isDigit amount then
           (case units unit of
              None \<Rightarrow> Inl (InvalidExpiryFormat expiry)
            | Some u \<Rightarrow> Inr (parseInt amount * u))
         else Inl (InvalidExpiryFormat expiry)))"

definition generateDeviceHash :: "packages \<Rightarrow> string \<Rightarrow> string" where
  "generateDeviceHash P fp = sha256hex P fp"

text \<open>\<open>a || d\<close> on an optional string and \<open>a ?? d\<close> on an optional value.\<close>

fun orDefault :: "string option \<Rightarrow> string \<Rightarrow> string" where
  "orDefault None d = d"
| "orDefault (Some s) d = (if s = [] then d else s)"

fun nullish :: "'a option \<Rightarrow> 'a \<Rightarrow> 'a" where
  "nullish None d = d"
| "nullish (Some v) d = v"

definition createAuthContext :: "TokenConfig \<Rightarrow> SecurityOptions \<Rightarrow> AuthContext" where
  "createAuthContext cfg so =
     \<lparr> config =
         \<lparr> accessTokenSecret = cfg_accessTokenSecret cfg,
           refreshTokenSecret = cfg_refreshTokenSecret cfg,
           accessTokenExpiry = orDefault (cfg_accessTokenExpiry cfg) ''15m'',
           refreshTokenExpiry = orDefault (cfg_refreshTokenExpiry cfg) ''7d'' \<rparr>,
       securityOptions =
         \<lparr> enableTokenRotation = nullish (opt_enableTokenRotation so) True,
           enableConcurrentUsageDetection =
             nullish (opt_enableConcurrentUsageDetection so) True,
           enableDeviceFingerprinting = nullish (opt_enableDeviceFingerprinting so) False,
           enableLocationTracking = nullish (opt_enableLocationTracking so) False,
           maxConcurrentTokens = nullish (opt_maxConcurrentTokens so) 5 \<rparr> \<rparr>"

text \<open>\<open>createAuthContext(config, storage)\<close> with \<open>securityOptions\<close> left at its default \<open>{}\<close>.\<close>

definition noSecurityOptions :: SecurityOptions where
  "noSecurityOptions =
     \<lparr> opt_enableTokenRotation = None, opt_enableConcurrentUsageDetection = None,
       opt_enableDeviceFingerprinting = None, opt_enableLocationTracking = None,
       opt_maxConcurrentTokens = None \<rparr>"

section \<open>src/storage/memoryStorage.ts\<close>

text \<open>The file is kept as \<^verbatim>\<open>unnamed/part_002\<close>.\<close>

record MemoryStorage =
  tokens :: "string \<rightharpoonup> RefreshTokenData"
  idCounter :: nat

definition createMemoryStorage :: MemoryStorage where
  "createMemoryStorage = \<lparr> tokens = Map.empty, idCounter = 1 \<rparr>"

definition digitChar :: "nat \<Rightarrow> char" where
  "digitChar n = ''0123456789'' ! n"

fun toString :: "nat \<Rightarrow> string" where
  "toString n = (if n < 10 then [digitChar n] else toString (n div 10) @ [digitChar (n mod 10)])"

declare toString.simps [simp del]

text \<open>
  \<open>saveRefreshToken\<close> gets the record without its id (here: with an id it overwrites),
  and returns the id it gave.
\<close>

definition saveRefreshToken :: "RefreshTokenData \<Rightarrow> MemoryStorage \<Rightarrow> string \<times> MemoryStorage" where
  "saveRefreshToken d st =
     (let i = toString (idCounter st) in
      (i, st\<lparr> tokens := (tokens st)(rt_token d \<mapsto> d\<lparr> rt_id := i \<rparr>),
               idCounter := idCounter st + 1 \<rparr>))"

definition getRefreshToken :: "string \<Rightarrow> MemoryStorage \<Rightarrow> RefreshTokenData option" where
  "getRefreshToken token st = tokens st token"

definition invalidateRefreshToken :: "string \<Rightarrow> MemoryStorage \<Rightarrow> MemoryStorage" where
  "invalidateRefreshToken token st = st\<lparr> tokens := (tokens st)(token := None) \<rparr>"

definition invalidateAllUserTokens :: "user_id \<Rightarrow> MemoryStorage \<Rightarrow> MemoryStorage" where
  "invalidateAllUserTokens uid st =
     st\<lparr> tokens := (\<lambda>t. case tokens st t of
                           None \<Rightarrow> None
                         | Some d \<Rightarrow> if rt_userId d = uid then None else Some d) \<rparr>"

definition markTokenAsUsed :: "string \<Rightarrow> MemoryStorage \<Rightarrow> MemoryStorage" where
  "markTokenAsUsed token st =
     (case tokens st token of
        None \<Rightarrow> st
      | Some d \<Rightarrow> st\<lparr> tokens := (tokens st)(token \<mapsto> d\<lparr> isUsed := True \<rparr>) \<rparr>)"

definition cleanupExpiredTokens :: "time \<Rightarrow> MemoryStorage \<Rightarrow> MemoryStorage" where
  "cleanupExpiredTokens now st =
     st\<lparr> tokens := (\<lambda>t. case tokens st t of
                           None \<Rightarrow> None
                         | Some d \<Rightarrow> if expiresAt d < now then None else Some d) \<rparr>"

section \<open>src/core/tokenGeneration.ts\<close>

text \<open>The file as it stands under this name.\<close>

definition signed :: "string + string \<Rightarrow> error + string" where
  "signed r = (case r of Inl msg \<Rightarrow> Inl (JwtError msg) | Inr t \<Rightarrow> Inr t)"

definition generateAccessToken :: "packages \<Rightarrow> User \<Rightarrow> AuthContext \<Rightarrow> time \<Rightarrow> error + string" where
  "generateAccessToken P user ctx now =
     signed (sign P
       \<lparr> c_userId = user_id user, c_type = Some ''access'', c_email = user_email user,
         c_jti = None, c_deviceHash = None, c_iat = None, c_exp = None \<rparr>
       (accessTokenSecret (config ctx))
       (ExpiresInString (accessTokenExpiry (config ctx)))
       now)"

definition deviceFingerprintOf :: "DeviceInfo option \<Rightarrow> string option" where
  "deviceFingerprintOf di = (case di of None \<Rightarrow> None | Some d \<Rightarrow> fingerprint d)"

definition refreshPayload :: "packages \<Rightarrow> User \<Rightarrow> AuthContext \<Rightarrow> DeviceInfo option \<Rightarrow> string \<Rightarrow> claims" where
  "refreshPayload P user ctx di jti =
     \<lparr> c_userId = user_id user, c_type = Some ''refresh'', c_email = None,
       c_jti = Some jti,
       c_deviceHash =
         (if enableDeviceFingerprinting (securityOptions ctx) \<and> truthy (deviceFingerprintOf di)
          then Some (generateDeviceHash P (the (deviceFingerprintOf di)))
          else None),
       c_iat = None, c_exp = None \<rparr>"

text \<open>The options \<open>generateRefreshToken\<close> hands to \<open>jwt.sign\<close>, as the file writes them.\<close>

definition refreshSignOptions :: "AuthContext \<Rightarrow> expires_in" where
  "refreshSignOptions ctx = ExpiresInString (accessTokenExpiry (config ctx))"

definition generateRefreshToken ::
  "packages \<Rightarrow> User \<Rightarrow> AuthContext \<Rightarrow> DeviceInfo option \<Rightarrow> string \<Rightarrow> time \<Rightarrow> error + string" where
  "generateRefreshToken P user ctx di jti now =
     signed (sign P (refreshPayload P user ctx di jti)
       (refreshTokenSecret (config ctx)) (refreshSignOptions ctx) now)"

definition newRefreshTokenData ::
  "User \<Rightarrow> string \<Rightarrow> DeviceInfo option \<Rightarrow> time \<Rightarrow> int \<Rightarrow> RefreshTokenData" where
  "newRefreshTokenData user tok di now ms =
     \<lparr> rt_id = [], rt_userId = user_id user, rt_token = tok,
       rt_deviceFingerprint = deviceFingerprintOf di,
       rt_ipAddress = (case di of None \<Rightarrow> None | Some d \<Rightarrow> ipAddress d),
       rt_userAgent = (case di of None \<Rightarrow> None | Some d \<Rightarrow> userAgent d),
       isUsed = False, createdAt = now, expiresAt = now + ms \<rparr>"

definition generateTokenPair ::
  "packages \<Rightarrow> User \<Rightarrow> AuthContext \<Rightarrow> DeviceInfo option \<Rightarrow> string \<Rightarrow> time \<Rightarrow> MemoryStorage
     \<Rightarrow> (error + TokenPair) \<times> MemoryStorage" where
  "generateTokenPair P user ctx di jti now st =
     (case generateAccessToken P user ctx now of
        Inl e \<Rightarrow> (Inl e, st)
      | Inr a \<Rightarrow>
         (case generateRefreshToken P user ctx di jti now of
            Inl e \<Rightarrow> (Inl e, st)
          | Inr r \<Rightarrow>
             (case parseExpiry (refreshTokenExpiry (config ctx)) of
                Inl e \<Rightarrow> (Inl e, st)
              | Inr ms \<Rightarrow>
                 (Inr \<lparr> accessToken = a, refreshToken = r \<rparr>,
                  snd (saveRefreshToken (newRefreshTokenData user r di now ms) st)))))"

subsection \<open>The revision that parses the expiry before signing\<close>

text \<open>
  The second revision of the file (kept behind \<^verbatim>\<open>src/core/securityChecks.ts\<close>, lines
  57 to 144) passes \<open>parseExpiry(...)\<close>, a number, as \<open>expiresIn\<close>,
  and takes the refresh token's from \<open>refreshTokenExpiry\<close>. A malformed expiry throws
  before \<open>jwt.sign\<close> is called.
\<close>

definition generateAccessToken_parsed ::
  "packages \<Rightarrow> User \<Rightarrow> AuthContext \<Rightarrow> time \<Rightarrow> error + string" where
  "generateAccessToken_parsed P user ctx now =
     (case parseExpiry (accessTokenExpiry (config ctx)) of
        Inl e \<Rightarrow> Inl e
      | Inr ms \<Rightarrow>
          signed (sign P
            \<lparr> c_userId = user_id user, c_type = Some ''access'', c_email = user_email user,
              c_jti = None, c_deviceHash = None, c_iat = None, c_exp = None \<rparr>
            (accessTokenSecret (config ctx)) (ExpiresInNumber ms) now))"

definition refreshSignOptions_parsed :: "AuthContext \<Rightarrow> error + expires_in" where
  "refreshSignOptions_parsed ctx =
     (case parseExpiry (refreshTokenExpiry (config ctx)) of
        Inl e \<Rightarrow> Inl e
      | Inr ms \<Rightarrow> Inr (ExpiresInNumber ms))"

definition generateRefreshToken_parsed ::
  "packages \<Rightarrow> User \<Rightarrow> AuthContext \<Rightarrow> DeviceInfo option \<Rightarrow> string \<Rightarrow> time \<Rightarrow> error + string" where
  "generateRefreshToken_parsed P user ctx di jti now =
     (case refreshSignOptions_parsed ctx of
        Inl e \<Rightarrow> Inl e
      | Inr opts \<Rightarrow>
          signed (sign P (refreshPayload P user ctx di jti)
            (refreshTokenSecret (config ctx)) opts now))"

definition generateTokenPair_parsed ::
  "packages \<Rightarrow> User \<Rightarrow> AuthContext \<Rightarrow> DeviceInfo option \<Rightarrow> string \<Rightarrow> time \<Rightarrow> MemoryStorage
     \<Rightarrow> (error + TokenPair) \<times> MemoryStorage" where
  "generateTokenPair_parsed P user ctx di jti now st =
     (case generateAccessToken_parsed P user ctx now of
        Inl e \<Rightarrow> (Inl e, st)
      | Inr a \<Rightarrow>
         (case generateRefreshToken_parsed P user ctx di jti now of
            Inl e \<Rightarrow> (Inl e, st)
          | Inr r \<Rightarrow>
             (case parseExpiry (refreshTokenExpiry (config ctx)) of
                Inl e \<Rightarrow> (Inl e, st)
              | Inr ms \<Rightarrow>
                 (Inr \<lparr> accessToken = a, refreshToken = r \<rparr>,
                  snd (saveRefreshToken (newRefreshTokenData user r di now ms) st)))))"

section \<open>src/core/tokenVerification.ts\<close>

text \<open>
  Both revisions are kept behind \<^verbatim>\<open>src/core/tokenRefresh.ts\<close>: the typed one in lines
  44 to 110, the untyped one in lines 112 to 162. \<open>refreshTokens\<close> is modelled with the
  typed one.
\<close>

text \<open>
  The typed revision: the error \<open>jwt.verify\<close> throws is returned as it is, and a payload
  of the other kind is refused.
\<close>

definition verifyAccessToken :: "packages \<Rightarrow> string \<Rightarrow> AuthContext \<Rightarrow> time \<Rightarrow> error + claims" where
  "verifyAccessToken P token ctx now =
     (case verify P token (accessTokenSecret (config ctx)) now of
        Inl msg \<Rightarrow> Inl (JwtError msg)
      | Inr decoded \<Rightarrow>
          if c_type decoded \<noteq> Some ''access'' then Inl InvalidTokenType else Inr decoded)"

definition verifyRefreshToken :: "packages \<Rightarrow> string \<Rightarrow> AuthContext \<Rightarrow> time \<Rightarrow> error + claims" where
  "verifyRefreshToken P token ctx now =
     (case verify P token (refreshTokenSecret (config ctx)) now of
        Inl msg \<Rightarrow> Inl (JwtError msg)
      | Inr decoded \<Rightarrow>
          if c_type decoded \<noteq> Some ''refresh'' then Inl InvalidTokenType else Inr decoded)"

text \<open>The untyped revision: whatever \<open>jwt.verify\<close> decodes is returned.\<close>

definition verifyAccessToken_untyped ::
  "packages \<Rightarrow> string \<Rightarrow> AuthContext \<Rightarrow> time \<Rightarrow> error + claims" where
  "verifyAccessToken_untyped P token ctx now =
     (case verify P token (accessTokenSecret (config ctx)) now of
        Inl msg \<Rightarrow> Inl InvalidOrExpiredAccessToken
      | Inr decoded \<Rightarrow> Inr decoded)"

definition verifyRefreshToken_untyped ::
  "packages \<Rightarrow> string \<Rightarrow> AuthContext \<Rightarrow> time \<Rightarrow> error + claims" where
  "verifyRefreshToken_untyped P token ctx now =
     (case verify P token (refreshTokenSecret (config ctx)) now of
        Inl msg \<Rightarrow> Inl InvalidOrExpiredRefreshToken
      | Inr decoded \<Rightarrow> Inr decoded)"

section \<open>src/core/securityChecks.ts\<close>

text \<open>
  A check returns the error it throws, if any, and the storage it leaves.
\<close>

definition checkConcurrentUsage ::
  "RefreshTokenData \<Rightarrow> AuthContext \<Rightarrow> MemoryStorage \<Rightarrow> error option \<times> MemoryStorage" where
  "checkConcurrentUsage tokenData ctx st =
     (if enableConcurrentUsageDetection (securityOptions ctx) \<and> isUsed tokenData
      then (Some ConcurrentUsageDetected, invalidateAllUserTokens (rt_userId tokenData) st)
      else (None, st))"

definition checkDeviceFingerprint :: "packages \<Rightarrow> claims \<Rightarrow> DeviceInfo option \<Rightarrow> error option" where
  "checkDeviceFingerprint P decoded di =
     (if truthy (c_deviceHash decoded) \<and> truthy (deviceFingerprintOf di) then
        (if the (c_deviceHash decoded) \<noteq> generateDeviceHash P (the (deviceFingerprintOf di))
         then Some DeviceMismatch else None)
      else None)"

definition checkTokenExpiry ::
  "RefreshTokenData \<Rightarrow> time \<Rightarrow> MemoryStorage \<Rightarrow> error option \<times> MemoryStorage" where
  "checkTokenExpiry tokenData now st =
     (if expiresAt tokenData < now
      then (Some RefreshTokenExpired, invalidateRefreshToken (rt_token tokenData) st)
      else (None, st))"

definition performSecurityChecks ::
  "packages \<Rightarrow> RefreshTokenData \<Rightarrow> claims \<Rightarrow> AuthContext \<Rightarrow> DeviceInfo option \<Rightarrow> time
     \<Rightarrow> MemoryStorage \<Rightarrow> error option \<times> MemoryStorage" where
  "performSecurityChecks P tokenData decoded ctx di now st =
     (case checkConcurrentUsage tokenData ctx st of
        (Some e, st1) \<Rightarrow> (Some e, st1)
      | (None, st1) \<Rightarrow>
         (case (if enableDeviceFingerprinting (securityOptions ctx)
                then checkDeviceFingerprint P decoded di else None) of
            Some e \<Rightarrow> (Some e, st1)
          | None \<Rightarrow> checkTokenExpiry tokenData now st1))"

section \<open>src/core/tokenRefresh.ts\<close>

definition refreshTokens ::
  "packages \<Rightarrow> string \<Rightarrow> AuthContext \<Rightarrow> DeviceInfo option \<Rightarrow> string \<Rightarrow> time \<Rightarrow> MemoryStorage
     \<Rightarrow> (error + TokenPair) \<times> MemoryStorage" where
  "refreshTokens P token ctx di jti now st =
     (case verifyRefreshToken P token ctx now of
        Inl e \<Rightarrow> (Inl e, st)
      | Inr decoded \<Rightarrow>
         (case getRefreshToken token st of
            None \<Rightarrow> (Inl InvalidRefreshToken, st)
          | Some tokenData \<Rightarrow>
             (case performSecurityChecks P tokenData decoded ctx di now st of
                (Some e, st1) \<Rightarrow> (Inl e, st1)
              | (None, st1) \<Rightarrow>
                  generateTokenPair P \<lparr> user_id = c_userId decoded, user_email = None \<rparr> ctx di jti now
                    (if enableTokenRotation (securityOptions ctx)
                     then markTokenAsUsed token st1 else st1))))"

subsection \<open>Concurrent calls\<close>

text \<open>
  \<open>refreshTokens\<close> is an \<open>async\<close> function: it runs until an \<open>await\<close> and then lets
  other calls run. Its four stretches are the steps of a task: up to
  \<open>await getRefreshToken\<close>, up to the end of \<open>await performSecurityChecks\<close>, up to
  \<open>await markTokenAsUsed\<close>, and \<open>generateTokenPair\<close>. The awaits inside
  \<open>performSecurityChecks\<close> and \<open>generateTokenPair\<close> are not split further. A task keeps
  the record the storage gave it, as a storage that answers with a copy does; the
  in-memory storage hands out the stored object itself, which makes a difference only
  to a task that checks after the other task has marked the record.
\<close>

record refresh_call =
  call_token :: string
  call_deviceInfo :: "DeviceInfo option"
  call_jti :: string
  call_now :: time

datatype refresh_task =
    Begin
  | Fetched claims "RefreshTokenData option"
  | Checked claims
  | Marked claims
  | Finished "error + TokenPair"

fun refreshStep ::
  "packages \<Rightarrow> AuthContext \<Rightarrow> refresh_call \<Rightarrow> refresh_task \<Rightarrow> MemoryStorage
     \<Rightarrow> refresh_task \<times> MemoryStorage" where
  "refreshStep P ctx c Begin st =
     (case verifyRefreshToken P (call_token c) ctx (call_now c) of
        Inl e \<Rightarrow> (Finished (Inl e), st)
      | Inr decoded \<Rightarrow> (Fetched decoded (getRefreshToken (call_token c) st), st))"
| "refreshStep P ctx c (Fetched decoded None) st = (Finished (Inl InvalidRefreshToken), st)"
| "refreshStep P ctx c (Fetched decoded (Some tokenData)) st =
     (case performSecurityChecks P tokenData decoded ctx (call_deviceInfo c) (call_now c) st of
        (Some e, st1) \<Rightarrow> (Finished (Inl e), st1)
      | (None, st1) \<Rightarrow> (Checked decoded, st1))"
| "refreshStep P ctx c (Checked decoded) st =
     (Marked decoded,
      if enableTokenRotation (securityOptions ctx) then markTokenAsUsed (call_token c) st else st)"
| "refreshStep P ctx c (Marked decoded) st =
     (case generateTokenPair P \<lparr> user_id = c_userId decoded, user_email = None \<rparr> ctx
             (call_deviceInfo c) (call_jti c) (call_now c) st of
        (r, st1) \<Rightarrow> (Finished r, st1))"
| "refreshStep P ctx c (Finished r) st = (Finished r, st)"

text \<open>
  Two calls on one storage. The schedule says whose step is next: \<open>False\<close> the first
  call's, \<open>True\<close> the second's.
\<close>

fun interleave ::
  "packages \<Rightarrow> AuthContext \<Rightarrow> refresh_call \<Rightarrow> refresh_call \<Rightarrow> bool list
     \<Rightarrow> refresh_task \<times> refresh_task \<times> MemoryStorage
     \<Rightarrow> refresh_task \<times> refresh_task \<times> MemoryStorage" where
  "interleave P ctx a b [] cfg = cfg"
| "interleave P ctx a b (False # sched) (ta, tb, st) =
     (case refreshStep P ctx a ta st of (ta1, st1) \<Rightarrow> interleave P ctx a b sched (ta1, tb, st1))"
| "interleave P ctx a b (True # sched) (ta, tb, st) =
     (case refreshStep P ctx b tb st of (tb1, st1) \<Rightarrow> interleave P ctx a b sched (ta, tb1, st1))"

section \<open>src/core/tokenInvalidation.ts\<close>

text \<open>The file is kept as \<^verbatim>\<open>unnamed/part_004\<close>.\<close>

definition logoutUser :: "user_id \<Rightarrow> MemoryStorage \<Rightarrow> MemoryStorage" where
  "logoutUser uid st = invalidateAllUserTokens uid st"

definition logoutDevice :: "string \<Rightarrow> MemoryStorage \<Rightarrow> MemoryStorage" where
  "logoutDevice token st = invalidateRefreshToken token st"

section \<open>Rate limiting: src/types/security/rateLimiting/index.ts\<close>

text \<open>
  The entry's two optional counters (\<open>successfulAttempts\<close>, \<open>failedAttempts\<close>), which no
  code reads or writes, are left out.
\<close>

record RateLimitEntry =
  attempts :: int
  firstAttempt :: time
  lastAttempt :: time
  blockedUntil :: "time option"

record BruteForceEntry =
  bf_userId :: string
  failedAttempts :: int
  lockedUntil :: "time option"
  lastFailedAttempt :: time

record RateLimitResult =
  allowed :: bool
  remaining :: int
  resetTime :: time
  retryAfter :: "int option"
  reason :: "string option"

record BruteForceOptions =
  bf_enabled :: bool
  maxFailedAttempts :: int
  lockoutDurationMs :: int
  resetCountOnSuccess :: bool

record AlertOptions =
  alerts_enabled :: bool
  threshold :: int
  webhook :: "string option"
  email :: "string option"

text \<open>\<open>Required<RateLimitOptions>\<close>, the options of a \<open>RateLimitContext\<close>.\<close>

record RateLimitOptions =
  maxAttempts :: int
  windowMs :: int
  blockDurationMs :: int
  skipSuccessfulRequests :: bool
  skipFailedRequests :: bool
  progressiveDelay :: bool
  keyGenerator :: "string \<Rightarrow> string"
  whitelist :: "string list"
  blacklist :: "string list"
  bruteForce :: BruteForceOptions
  alerts :: AlertOptions

section \<open>The in-memory rate-limit storage (\<open>createMemoryRateLimitStorage\<close>)\<close>

text \<open>
  The file is kept as \<^verbatim>\<open>unnamed/part_000\<close>.
  The storage's two maps, the deletions it has scheduled with \<open>setTimeout\<close> (when each
  is due, and what it deletes), and the alerts sent so far. A call only schedules; the
  host runs the callbacks that are due between calls (\<open>runTimers\<close>). A deletion
  scheduled for a key removes whatever entry the key has by then.
\<close>

datatype timer_target = RateLimitTimer string | BruteForceTimer string

datatype alert = WebhookPost string string int | EmailWarning string string int

record RateLimitStorage =
  rateLimitEntries :: "string \<rightharpoonup> RateLimitEntry"
  bruteForceEntries :: "string \<rightharpoonup> BruteForceEntry"
  timers :: "(time \<times> timer_target) list"
  alertsSent :: "alert list"

definition createMemoryRateLimitStorage :: RateLimitStorage where
  "createMemoryRateLimitStorage =
     \<lparr> rateLimitEntries = Map.empty, bruteForceEntries = Map.empty, timers = [],
       alertsSent = [] \<rparr>"

text \<open>
  The delay \<open>setTimeout(callback, ttl)\<close> waits in Node: a delay above 2147483647 ms or
  below 1 ms is set to 1 ms.
\<close>

definition timeoutDelay :: "int \<Rightarrow> int" where
  "timeoutDelay ttl = (if ttl < 1 \<or> 2147483647 < ttl then 1 else ttl)"

definition getRateLimitEntry :: "string \<Rightarrow> RateLimitStorage \<Rightarrow> RateLimitEntry option" where
  "getRateLimitEntry key st = rateLimitEntries st key"

definition saveRateLimitEntry ::
  "string \<Rightarrow> RateLimitEntry \<Rightarrow> int \<Rightarrow> time \<Rightarrow> RateLimitStorage \<Rightarrow> RateLimitStorage" where
  "saveRateLimitEntry key entry ttl now st =
     st\<lparr> rateLimitEntries := (rateLimitEntries st)(key \<mapsto> entry),
         timers := timers st @ [(now + timeoutDelay ttl, RateLimitTimer key)] \<rparr>"

definition incrementAttempts ::
  "string \<Rightarrow> int \<Rightarrow> time \<Rightarrow> RateLimitStorage \<Rightarrow> RateLimitEntry \<times> RateLimitStorage" where
  "incrementAttempts key ttl now st =
     (let entry =
        (case rateLimitEntries st key of
           Some existing \<Rightarrow> existing\<lparr> attempts := attempts existing + 1, lastAttempt := now \<rparr>
         | None \<Rightarrow>
            \<lparr> attempts = 1, firstAttempt = now, lastAttempt = now, blockedUntil = None \<rparr>)
      in (entry, saveRateLimitEntry key entry ttl now st))"

definition clearRateLimitEntry :: "string \<Rightarrow> RateLimitStorage \<Rightarrow> RateLimitStorage" where
  "clearRateLimitEntry key st = st\<lparr> rateLimitEntries := (rateLimitEntries st)(key := None) \<rparr>"

definition getBruteForceEntry :: "string \<Rightarrow> RateLimitStorage \<Rightarrow> BruteForceEntry option" where
  "getBruteForceEntry userId st = bruteForceEntries st userId"

definition saveBruteForceEntry ::
  "string \<Rightarrow> BruteForceEntry \<Rightarrow> int \<Rightarrow> time \<Rightarrow> RateLimitStorage \<Rightarrow> RateLimitStorage" where
  "saveBruteForceEntry userId entry ttl now st =
     st\<lparr> bruteForceEntries := (bruteForceEntries st)(userId \<mapsto> entry),
         timers := timers st @ [(now + timeoutDelay ttl, BruteForceTimer userId)] \<rparr>"

definition incrementFailedAttempts ::
  "string \<Rightarrow> int \<Rightarrow> time \<Rightarrow> RateLimitStorage \<Rightarrow> BruteForceEntry \<times> RateLimitStorage" where
  "incrementFailedAttempts userId ttl now st =
     (let entry =
        (case bruteForceEntries st userId of
           Some existing \<Rightarrow>
             existing\<lparr> failedAttempts := failedAttempts existing + 1, lastFailedAttempt := now \<rparr>
         | None \<Rightarrow>
            \<lparr> bf_userId = userId, failedAttempts = 1, lockedUntil = None,
              lastFailedAttempt = now \<rparr>)
      in (entry, saveBruteForceEntry userId entry ttl now st))"

definition clearBruteForceEntry :: "string \<Rightarrow> RateLimitStorage \<Rightarrow> RateLimitStorage" where
  "clearBruteForceEntry userId st =
     st\<lparr> bruteForceEntries := (bruteForceEntries st)(userId := None) \<rparr>"

definition cleanupExpiredEntries :: "time \<Rightarrow> RateLimitStorage \<Rightarrow> RateLimitStorage" where
  "cleanupExpiredEntries now st =
     st\<lparr> rateLimitEntries := (\<lambda>k. case rateLimitEntries st k of
              None \<Rightarrow> None
            | Some e \<Rightarrow> (case blockedUntil e of
                           None \<Rightarrow> Some e
                         | Some b \<Rightarrow> if b < now then None else Some e)),
         bruteForceEntries := (\<lambda>u. case bruteForceEntries st u of
              None \<Rightarrow> None
            | Some e \<Rightarrow> (case lockedUntil e of
                           None \<Rightarrow> Some e
                         | Some l \<Rightarrow> if l < now then None else Some e)) \<rparr>"

fun fireTimer :: "RateLimitStorage \<Rightarrow> time \<times> timer_target \<Rightarrow> RateLimitStorage" where
  "fireTimer st (due, RateLimitTimer key) =
     st\<lparr> rateLimitEntries := (rateLimitEntries st)(key := None) \<rparr>"
| "fireTimer st (due, BruteForceTimer userId) =
     st\<lparr> bruteForceEntries := (bruteForceEntries st)(userId := None) \<rparr>"

definition runTimers :: "time \<Rightarrow> RateLimitStorage \<Rightarrow> RateLimitStorage" where
  "runTimers now st =
     (foldl fireTimer st (filter (\<lambda>t. fst t \<le> now) (timers st)))
       \<lparr> timers := filter (\<lambda>t. now < fst t) (timers st) \<rparr>"

section \<open>src/security/rateLimiting/createRateLimitContext.ts\<close>

record BruteForceInput =
  in_bf_enabled :: bool
  in_maxFailedAttempts :: int
  in_lockoutDurationMs :: int
  in_resetCountOnSuccess :: "bool option"

record AlertInput =
  in_alerts_enabled :: bool
  in_threshold :: int
  in_webhook :: "string option"
  in_email :: "string option"

record RateLimitInput =
  in_maxAttempts :: int
  in_windowMs :: int
  in_blockDurationMs :: int
  in_skipSuccessfulRequests :: "bool option"
  in_skipFailedRequests :: "bool option"
  in_progressiveDelay :: "bool option"
  in_keyGenerator :: "(string \<Rightarrow> string) option"
  in_whitelist :: "string list option"
  in_blacklist :: "string list option"
  in_bruteForce :: "BruteForceInput option"
  in_alerts :: "AlertInput option"

definition createRateLimitContext :: "RateLimitInput \<Rightarrow> RateLimitOptions" where
  "createRateLimitContext options =
     \<lparr> maxAttempts = in_maxAttempts options,
       windowMs = in_windowMs options,
       blockDurationMs = in_blockDurationMs options,
       skipSuccessfulRequests = nullish (in_skipSuccessfulRequests options) False,
       skipFailedRequests = nullish (in_skipFailedRequests options) False,
       progressiveDelay = nullish (in_progressiveDelay options) False,
       keyGenerator = nullish (in_keyGenerator options) (\<lambda>id. ''rateLimit:'' @ id),
       whitelist = nullish (in_whitelist options) [],
       blacklist = nullish (in_blacklist options) [],
       bruteForce =
         \<lparr> bf_enabled = nullish (map_option in_bf_enabled (in_bruteForce options)) True,
           maxFailedAttempts =
             nullish (map_option in_maxFailedAttempts (in_bruteForce options)) 10,
           lockoutDurationMs =
             nullish (map_option in_lockoutDurationMs (in_bruteForce options)) (60 * 60 * 1000),
           resetCountOnSuccess =
             nullish (Option.bind (in_bruteForce options) in_resetCountOnSuccess) True \<rparr>,
       alerts =
         \<lparr> alerts_enabled = nullish (map_option in_alerts_enabled (in_alerts options)) False,
           threshold = nullish (map_option in_threshold (in_alerts options)) 5,
           webhook = Option.bind (in_alerts options) in_webhook,
           email = Option.bind (in_alerts options) in_email \<rparr> \<rparr>"

section \<open>src/security/rateLimiting/utils/helperFunctions.ts\<close>

text \<open>The file is kept as \<^verbatim>\<open>unnamed/part_009\<close>.\<close>

definition isWhitelisted :: "string \<Rightarrow> string list \<Rightarrow> bool" where
  "isWhitelisted ip wl = List.member wl ip"

definition isBlacklisted :: "string \<Rightarrow> string list \<Rightarrow> bool" where
  "isBlacklisted ip bl = List.member bl ip"

definition isWindowExpired :: "time \<Rightarrow> int \<Rightarrow> time \<Rightarrow> bool" where
  "isWindowExpired first window now = (now - first > window)"

definition isBlocked :: "time option \<Rightarrow> time \<Rightarrow> bool" where
  "isBlocked b now = (case b of None \<Rightarrow> False | Some until \<Rightarrow> until > now)"

definition calculateRetryAfter :: "time \<Rightarrow> time \<Rightarrow> int" where
  "calculateRetryAfter until now = until - now"

definition calculateRemainingAttempts :: "int \<Rightarrow> int \<Rightarrow> int" where
  "calculateRemainingAttempts current mx = max 0 (mx - current - 1)"

definition sendAlert :: "string \<Rightarrow> int \<Rightarrow> RateLimitOptions \<Rightarrow> RateLimitStorage \<Rightarrow> RateLimitStorage" where
  "sendAlert identifier n options st =
     (if alerts_enabled (alerts options) then
        (if n < threshold (alerts options) then st
         else st\<lparr> alertsSent := alertsSent st
                @ (if truthy (webhook (alerts options))
                   then [WebhookPost (the (webhook (alerts options))) identifier n] else [])
                @ (if truthy (email (alerts options))
                   then [EmailWarning (the (email (alerts options))) identifier n] else []) \<rparr>)
      else st)"

section \<open>src/security/rateLimiting/utils/rateLimitingFunctions.ts\<close>

text \<open>The file is kept as \<^verbatim>\<open>unnamed/part_011\<close>.\<close>

definition checkIPSecurity :: "string \<Rightarrow> RateLimitOptions \<Rightarrow> time \<Rightarrow> RateLimitResult option" where
  "checkIPSecurity identifier options now =
     (if isWhitelisted identifier (whitelist options) then
        Some \<lparr> allowed = True, remaining = maxAttempts options,
               resetTime = now + windowMs options, retryAfter = None, reason = None \<rparr>
      else if isBlacklisted identifier (blacklist options) then
        Some \<lparr> allowed = False, remaining = 0,
               resetTime = now + blockDurationMs options,
               retryAfter = Some (blockDurationMs options),
               reason = Some ''IP blacklisted'' \<rparr>
      else None)"

definition lockedReason :: string where
  "lockedReason = ''Account locked due to too many failed attempts''"

definition checkBruteForceProtection ::
  "string \<Rightarrow> RateLimitOptions \<Rightarrow> time \<Rightarrow> RateLimitStorage
     \<Rightarrow> RateLimitResult option \<times> RateLimitStorage" where
  "checkBruteForceProtection userId options now st =
     (if bf_enabled (bruteForce options) then
        (case getBruteForceEntry userId st of
           None \<Rightarrow> (None, st)
         | Some entry \<Rightarrow>
            if (case lockedUntil entry of None \<Rightarrow> False | Some l \<Rightarrow> l > now) then
              (Some \<lparr> allowed = False, remaining = 0,
                      resetTime = the (lockedUntil entry),
                      retryAfter = Some (calculateRetryAfter (the (lockedUntil entry)) now),
                      reason = Some lockedReason \<rparr>, st)
            else if failedAttempts entry \<ge> maxFailedAttempts (bruteForce options) then
              (Some \<lparr> allowed = False, remaining = 0,
                      resetTime = now + lockoutDurationMs (bruteForce options),
                      retryAfter = Some (lockoutDurationMs (bruteForce options)),
                      reason = Some lockedReason \<rparr>,
               saveBruteForceEntry userId
                 (entry\<lparr> lockedUntil := Some (now + lockoutDurationMs (bruteForce options)) \<rparr>)
                 (lockoutDurationMs (bruteForce options)) now st)
            else (None, st))
      else (None, st))"

definition checkRateLimitEntry ::
  "string \<Rightarrow> RateLimitOptions \<Rightarrow> time \<Rightarrow> RateLimitStorage
     \<Rightarrow> RateLimitResult \<times> RateLimitStorage" where
  "checkRateLimitEntry identifier options now st =
     (let key = keyGenerator options identifier in
      case getRateLimitEntry key st of
        None \<Rightarrow>
          (\<lparr> allowed = True, remaining = maxAttempts options - 1,
             resetTime = now + windowMs options, retryAfter = None, reason = None \<rparr>, st)
      | Some entry \<Rightarrow>
          if isBlocked (blockedUntil entry) now then
            (\<lparr> allowed = False, remaining = 0, resetTime = the (blockedUntil entry),
               retryAfter = Some (calculateRetryAfter (the (blockedUntil entry)) now),
               reason = Some ''Rate limit exceeded'' \<rparr>, st)
          else if isWindowExpired (firstAttempt entry) (windowMs options) now then
            (\<lparr> allowed = True, remaining = maxAttempts options - 1,
               resetTime = now + windowMs options, retryAfter = None, reason = None \<rparr>, st)
          else if attempts entry \<ge> maxAttempts options then
            (\<lparr> allowed = False, remaining = 0,
               resetTime = now + blockDurationMs options,
               retryAfter = Some (blockDurationMs options),
               reason = Some ''Rate limit exceeded'' \<rparr>,
             sendAlert identifier (attempts entry) options
               (saveRateLimitEntry key
                  (entry\<lparr> blockedUntil := Some (now + blockDurationMs options) \<rparr>)
                  (blockDurationMs options) now st))
          else
            (\<lparr> allowed = True,
               remaining = calculateRemainingAttempts (attempts entry) (maxAttempts options),
               resetTime = firstAttempt entry + windowMs options,
               retryAfter = None, reason = None \<rparr>, st))"

definition checkRateLimit ::
  "string \<Rightarrow> RateLimitOptions \<Rightarrow> string option \<Rightarrow> time \<Rightarrow> RateLimitStorage
     \<Rightarrow> RateLimitResult \<times> RateLimitStorage" where
  "checkRateLimit identifier options userId now st =
     (case checkIPSecurity identifier options now of
        Some r \<Rightarrow> (r, st)
      | None \<Rightarrow>
         (if truthy userId then
            (case checkBruteForceProtection (the userId) options now st of
               (Some r, st1) \<Rightarrow> (r, st1)
             | (None, st1) \<Rightarrow> checkRateLimitEntry identifier options now st1)
          else checkRateLimitEntry identifier options now st))"

definition recordRateLimitAttempt ::
  "string \<Rightarrow> RateLimitOptions \<Rightarrow> bool \<Rightarrow> time \<Rightarrow> RateLimitStorage \<Rightarrow> RateLimitStorage" where
  "recordRateLimitAttempt identifier options success now st =
     (if success \<and> skipSuccessfulRequests options then st
      else if \<not> success \<and> skipFailedRequests options then st
      else snd (incrementAttempts (keyGenerator options identifier)
                  (max (windowMs options) (blockDurationMs options)) now st))"

definition recordBruteForceAttempt ::
  "string \<Rightarrow> RateLimitOptions \<Rightarrow> bool \<Rightarrow> time \<Rightarrow> RateLimitStorage \<Rightarrow> RateLimitStorage" where
  "recordBruteForceAttempt userId options success now st =
     (if bf_enabled (bruteForce options) then
        (if success then
           (if resetCountOnSuccess (bruteForce options) then clearBruteForceEntry userId st
            else st)
         else snd (incrementFailedAttempts userId (lockoutDurationMs (bruteForce options)) now st))
      else st)"

definition recordAttempt ::
  "string \<Rightarrow> RateLimitOptions \<Rightarrow> bool \<Rightarrow> string option \<Rightarrow> time \<Rightarrow> RateLimitStorage
     \<Rightarrow> RateLimitStorage" where
  "recordAttempt identifier options success userId now st =
     (let st1 = recordRateLimitAttempt identifier options success now st in
      if truthy userId then recordBruteForceAttempt (the userId) options success now st1
      else st1)"

section \<open>src/security/rateLimiting/utils/managementFunctions.ts\<close>

definition unlockUser :: "string \<Rightarrow> RateLimitStorage \<Rightarrow> RateLimitStorage" where
  "unlockUser userId st = clearBruteForceEntry userId st"

definition unlockIP :: "string \<Rightarrow> RateLimitOptions \<Rightarrow> RateLimitStorage \<Rightarrow> RateLimitStorage" where
  "unlockIP identifier options st = clearRateLimitEntry (keyGenerator options identifier) st"

section \<open>Calls on a running host\<close>

text \<open>
  Between two calls the host runs the timer callbacks that have come due. A call is
  written as a pair: the time up to which the host has run its timers, and the time of
  the call (the first is at most the second when the host keeps up, and far in the past
  when it has run no timer at all).
\<close>

definition checkRateLimitOnHost ::
  "string \<Rightarrow> RateLimitOptions \<Rightarrow> string option \<Rightarrow> time \<times> time \<Rightarrow> RateLimitStorage
     \<Rightarrow> RateLimitResult \<times> RateLimitStorage" where
  "checkRateLimitOnHost identifier options userId call st =
     checkRateLimit identifier options userId (snd call) (runTimers (fst call) st)"

fun recordAttemptsOnHost ::
  "string \<Rightarrow> RateLimitOptions \<Rightarrow> bool \<Rightarrow> string option \<Rightarrow> (time \<times> time) list
     \<Rightarrow> RateLimitStorage \<Rightarrow> RateLimitStorage" where
  "recordAttemptsOnHost identifier options success userId [] st = st"
| "recordAttemptsOnHost identifier options success userId (call # later) st =
     recordAttemptsOnHost identifier options success userId later
       (recordAttempt identifier options success userId (snd call) (runTimers (fst call) st))"

text \<open>Whether a timer deletes the brute-force entry of a user.\<close>

fun targetsUser :: "string \<Rightarrow> time \<times> timer_target \<Rightarrow> bool" where
  "targetsUser userId (due, BruteForceTimer u) = (u = userId)"
| "targetsUser userId (due, RateLimitTimer k) = False"

section \<open>A fixed environment for running the code\<close>

text \<open>
  One behaviour of the packages, to run the operations on concrete inputs: \<open>sign\<close>
  writes the token as kind, token id, device hash and \<open>expiresIn\<close>, separated by dots,
  and never fails; \<open>verify\<close> accepts, under the secret they were signed with, the three
  tokens named below, at any time; the hash of \<open>s\<close> is \<open>#s\<close>.
\<close>

definition expiresInText :: "expires_in \<Rightarrow> string" where
  "expiresInText e = (case e of ExpiresInString s \<Rightarrow> s | ExpiresInNumber n \<Rightarrow> toString (nat n))"

definition demoRefreshClaims :: "string option \<Rightarrow> claims" where
  "demoRefreshClaims h =
     \<lparr> c_userId = UserStr ''u1'', c_type = Some ''refresh'', c_email = None,
       c_jti = Some ''j0'', c_deviceHash = h, c_iat = None, c_exp = None \<rparr>"

definition demoAccessClaims :: claims where
  "demoAccessClaims =
     \<lparr> c_userId = UserStr ''u1'', c_type = Some ''access'', c_email = None,
       c_jti = None, c_deviceHash = None, c_iat = None, c_exp = None \<rparr>"

definition demoPackages :: packages where
  "demoPackages =
     \<lparr> sign = (\<lambda>c secret e now.
         Inr (nullish (c_type c) [] @ ''.'' @ nullish (c_jti c) [] @ ''.''
              @ nullish (c_deviceHash c) [] @ ''.'' @ expiresInText e)),
       verify = (\<lambda>tok secret now.
         if secret = ''refresh-secret'' \<and> tok = ''refresh.j0..15m''
           then Inr (demoRefreshClaims None)
         else if secret = ''refresh-secret'' \<and> tok = ''refresh.j0.#F.15m''
           then Inr (demoRefreshClaims (Some ''#F''))
         else if secret = ''access-secret'' \<and> tok = ''access...15m''
           then Inr demoAccessClaims
         else Inl ''invalid signature''),
       sha256hex = (\<lambda>s. CHR ''#'' # s) \<rparr>"

definition demoUser :: User where
  "demoUser = \<lparr> user_id = UserStr ''u1'', user_email = None \<rparr>"

definition demoConfig :: TokenConfig where
  "demoConfig =
     \<lparr> cfg_accessTokenSecret = ''access-secret'', cfg_refreshTokenSecret = ''refresh-secret'',
       cfg_accessTokenExpiry = None, cfg_refreshTokenExpiry = None \<rparr>"

text \<open>The default context, and the same with device fingerprinting switched on.\<close>

definition demoContext :: AuthContext where
  "demoContext = createAuthContext demoConfig noSecurityOptions"

definition deviceContext :: AuthContext where
  "deviceContext =
     createAuthContext demoConfig (noSecurityOptions\<lparr> opt_enableDeviceFingerprinting := Some True \<rparr>)"

text \<open>Rotation on, concurrent-usage detection off.\<close>

definition noDetectionContext :: AuthContext where
  "noDetectionContext =
     createAuthContext demoConfig
       (noSecurityOptions\<lparr> opt_enableConcurrentUsageDetection := Some False \<rparr>)"

text \<open>A configuration that uses each secret for the other kind of token.\<close>

definition swappedContext :: AuthContext where
  "swappedContext =
     createAuthContext
       (demoConfig\<lparr> cfg_accessTokenSecret := ''refresh-secret'',
                    cfg_refreshTokenSecret := ''access-secret'' \<rparr>)
       noSecurityOptions"

definition device :: "string \<Rightarrow> DeviceInfo" where
  "device fp = \<lparr> fingerprint = Some fp, ipAddress = None, userAgent = None, location = None \<rparr>"

text \<open>The storage after \<open>generateTokenPair\<close> for the demo user at time 0, without and with a device.\<close>

definition issuedStorage :: MemoryStorage where
  "issuedStorage = snd (generateTokenPair demoPackages demoUser demoContext None ''j0'' 0 createMemoryStorage)"

definition issuedDeviceStorage :: MemoryStorage where
  "issuedDeviceStorage =
     snd (generateTokenPair demoPackages demoUser deviceContext (Some (device ''F'')) ''j0'' 0
            createMemoryStorage)"

text \<open>The two tokens issued above, and the storage once the first has been marked used.\<close>

definition plainToken :: string where
  "plainToken = ''refresh.j0..15m''"

definition deviceToken :: string where
  "deviceToken = ''refresh.j0.#F.15m''"

definition usedStorage :: MemoryStorage where
  "usedStorage = markTokenAsUsed plainToken issuedStorage"

definition usedDeviceStorage :: MemoryStorage where
  "usedDeviceStorage = markTokenAsUsed deviceToken issuedDeviceStorage"

definition usedDeviceRecord :: RefreshTokenData where
  "usedDeviceRecord =
     \<lparr> rt_id = ''1'', rt_userId = UserStr ''u1'', rt_token = deviceToken,
       rt_deviceFingerprint = Some ''F'', rt_ipAddress = None, rt_userAgent = None,
       isUsed = True, createdAt = 0, expiresAt = 604800000 \<rparr>"

definition usedRecord :: RefreshTokenData where
  "usedRecord =
     \<lparr> rt_id = ''1'', rt_userId = UserStr ''u1'', rt_token = plainToken,
       rt_deviceFingerprint = None, rt_ipAddress = None, rt_userAgent = None,
       isUsed = True, createdAt = 0, expiresAt = 604800000 \<rparr>"

text \<open>A configuration whose refresh expiry is not an amount and a unit.\<close>

definition badConfig :: TokenConfig where
  "badConfig = demoConfig\<lparr> cfg_refreshTokenExpiry := Some ''abc'' \<rparr>"

definition badContext :: AuthContext where
  "badContext = createAuthContext badConfig noSecurityOptions"

text \<open>Two calls that present the same token at the same time.\<close>

definition callA :: refresh_call where
  "callA = \<lparr> call_token = plainToken, call_deviceInfo = None, call_jti = ''j1'', call_now = 5 \<rparr>"

definition callB :: refresh_call where
  "callB = \<lparr> call_token = plainToken, call_deviceInfo = None, call_jti = ''j2'', call_now = 5 \<rparr>"

text \<open>
  The order in which two calls started one after the other take their steps (each
  \<open>await\<close> lets the other call run), and the order in which the first call finishes
  before the second starts.
\<close>

definition alternating :: "bool list" where
  "alternating = [False, True, False, True, False, True, False, True]"

definition oneAfterTheOther :: "bool list" where
  "oneAfterTheOther = [False, False, False, False, True, True, True, True]"

section \<open>Reading the counters\<close>

text \<open>The failed attempts counted for a user and the lock set for it, if any.\<close>

definition failedCount :: "RateLimitStorage \<Rightarrow> string \<Rightarrow> int" where
  "failedCount st userId =
     (case bruteForceEntries st userId of None \<Rightarrow> 0 | Some e \<Rightarrow> failedAttempts e)"

definition lockOf :: "RateLimitStorage \<Rightarrow> string \<Rightarrow> time option" where
  "lockOf st userId =
     (case bruteForceEntries st userId of None \<Rightarrow> None | Some e \<Rightarrow> lockedUntil e)"

text \<open>No pending timer that deletes the user's brute-force entry is due by time \<open>H\<close>.\<close>

definition noTimerBefore :: "string \<Rightarrow> time \<Rightarrow> RateLimitStorage \<Rightarrow> bool" where
  "noTimerBefore userId H st = list_all (\<lambda>t. targetsUser userId t \<longrightarrow> H < fst t) (timers st)"

text \<open>
  Options as the README's examples give them, with a short window: three attempts a
  second, a block of five seconds, everything else left to \<open>createRateLimitContext\<close>.
\<close>

definition demoLimits :: RateLimitOptions where
  "demoLimits =
     createRateLimitContext
       \<lparr> in_maxAttempts = 3, in_windowMs = 1000, in_blockDurationMs = 5000,
         in_skipSuccessfulRequests = None, in_skipFailedRequests = None,
         in_progressiveDelay = None, in_keyGenerator = None, in_whitelist = None,
         in_blacklist = None, in_bruteForce = None, in_alerts = None \<rparr>"

text \<open>
  One address: two attempts at the start of a window, and four more after the window
  has run out.
\<close>

definition staleStorage :: RateLimitStorage where
  "staleStorage =
     recordAttemptsOnHost ''1.2.3.4'' demoLimits False None [(0, 0), (1, 1)]
       createMemoryRateLimitStorage"

definition lateAttempts :: "(time \<times> time) list" where
  "lateAttempts = [(1500, 1500), (1501, 1501), (1502, 1502), (1503, 1503)]"

definition lateStorage :: RateLimitStorage where
  "lateStorage = recordAttemptsOnHost ''1.2.3.4'' demoLimits False None lateAttempts staleStorage"

text \<open>Ten failed logins of one user, one a second, and five of them.\<close>

definition tenFailures :: "(time \<times> time) list" where
  "tenFailures = map (\<lambda>t. (t, t)) [1000, 2000, 3000, 4000, 5000, 6000, 7000, 8000, 9000, 10000]"

definition fiveFailures :: "(time \<times> time) list" where
  "fiveFailures = map (\<lambda>t. (t, t)) [1000, 2000, 3000, 4000, 5000]"

text \<open>
  The same options with one address on the whitelist, and ten failed logins of one user
  that are more than an hour apart.
\<close>

definition whitelistLimits :: RateLimitOptions where
  "whitelistLimits =
     createRateLimitContext
       \<lparr> in_maxAttempts = 3, in_windowMs = 1000, in_blockDurationMs = 5000,
         in_skipSuccessfulRequests = None, in_skipFailedRequests = None,
         in_progressiveDelay = None, in_keyGenerator = None,
         in_whitelist = Some [''10.0.0.1''], in_blacklist = None, in_bruteForce = None,
         in_alerts = None \<rparr>"

definition slowFailures :: "(time \<times> time) list" where
  "slowFailures =
     map (\<lambda>t. (t, t))
       [0, 4000000, 8000000, 12000000, 16000000, 20000000, 24000000, 28000000, 32000000,
        36000000]"

text \<open>
  The storage right after a first failed login of user \<open>u1\<close> from address \<open>*\<close> at time
  \<open>t\<close>, under \<open>demoLimits\<close>: one attempt, one failure, and the two cleanups scheduled.
\<close>

definition oneFailureAt :: "time \<Rightarrow> RateLimitStorage \<Rightarrow> bool" where
  "oneFailureAt t st =
     (rateLimitEntries st ''rateLimit:*''
        = Some \<lparr> attempts = 1, firstAttempt = t, lastAttempt = t, blockedUntil = None \<rparr>
      \<and> bruteForceEntries st ''u1''
        = Some \<lparr> bf_userId = ''u1'', failedAttempts = 1, lockedUntil = None,
                 lastFailedAttempt = t \<rparr>
      \<and> timers st = [(t + 5000, RateLimitTimer ''rateLimit:*''),
                      (t + 3600000, BruteForceTimer ''u1'')])"

section \<open>Facts about the storage and the checks\<close>

lemmas demo_defs = demoPackages_def demoRefreshClaims_def demoAccessClaims_def demoUser_def
  demoConfig_def demoContext_def deviceContext_def noDetectionContext_def swappedContext_def
  createAuthContext_def noSecurityOptions_def device_def expiresInText_def

lemmas storage_defs = saveRefreshToken_def getRefreshToken_def invalidateRefreshToken_def
  invalidateAllUserTokens_def markTokenAsUsed_def createMemoryStorage_def

lemmas generation_defs = generateTokenPair_def generateAccessToken_def generateRefreshToken_def
  refreshPayload_def refreshSignOptions_def newRefreshTokenData_def signed_def
  deviceFingerprintOf_def generateDeviceHash_def

lemmas check_defs = performSecurityChecks_def checkConcurrentUsage_def
  checkDeviceFingerprint_def checkTokenExpiry_def

lemmas parse_defs = parseExpiry_def isDigit_def parseInt_def digitValue_def

lemmas scenario_defs = plainToken_def deviceToken_def issuedStorage_def issuedDeviceStorage_def
  usedStorage_def usedDeviceStorage_def usedDeviceRecord_def usedRecord_def

lemma toString_1: "toString (Suc 0) = ''1''"
  by (subst toString.simps) (simp add: digitChar_def)

lemma performSecurityChecks_cases:
  "performSecurityChecks P td dec ctx di now st =
     (if enableConcurrentUsageDetection (securityOptions ctx) \<and> isUsed td
        then (Some ConcurrentUsageDetected, invalidateAllUserTokens (rt_userId td) st)
      else if enableDeviceFingerprinting (securityOptions ctx)
              \<and> checkDeviceFingerprint P dec di = Some DeviceMismatch
        then (Some DeviceMismatch, st)
      else if expiresAt td < now
        then (Some RefreshTokenExpired, invalidateRefreshToken (rt_token td) st)
      else (None, st))"
  by (simp add: check_defs split: option.splits)



lemma tokens_after_save:
  "tokens (snd (saveRefreshToken d st)) t =
     (if t = rt_token d then Some (d\<lparr> rt_id := toString (idCounter st) \<rparr>) else tokens st t)"
  by (simp add: saveRefreshToken_def Let_def)

lemma tokens_after_mark:
  "tokens (markTokenAsUsed rt st) t =
     (if t = rt then map_option (\<lambda>d. d\<lparr> isUsed := True \<rparr>) (tokens st rt) else tokens st t)"
  by (simp add: markTokenAsUsed_def split: option.splits)

lemma no_tokens_of_user_left:
  "tokens (invalidateAllUserTokens uid st) t = Some d \<Longrightarrow> rt_userId d \<noteq> uid"
  by (auto simp: invalidateAllUserTokens_def split: option.splits if_splits)

lemma other_users_tokens_kept:
  "tokens st t = Some d \<Longrightarrow> rt_userId d \<noteq> uid \<Longrightarrow> tokens (invalidateAllUserTokens uid st) t = Some d"
  by (simp add: invalidateAllUserTokens_def)

text \<open>What the demo storages hold.\<close>

lemma issued_plain:
  "tokens issuedStorage plainToken = Some (usedRecord\<lparr> isUsed := False \<rparr>)"
  by (simp add: scenario_defs storage_defs generation_defs parse_defs demo_defs toString_1 Let_def)

lemma issued_device:
  "tokens issuedDeviceStorage deviceToken = Some (usedDeviceRecord\<lparr> isUsed := False \<rparr>)"
  by (simp add: scenario_defs storage_defs generation_defs parse_defs demo_defs toString_1 Let_def)

lemma used_plain: "getRefreshToken plainToken usedStorage = Some usedRecord"
  by (simp add: usedStorage_def getRefreshToken_def tokens_after_mark issued_plain)
     (simp add: usedRecord_def)

lemma used_device: "getRefreshToken deviceToken usedDeviceStorage = Some usedDeviceRecord"
  by (simp add: usedDeviceStorage_def getRefreshToken_def tokens_after_mark issued_device)
     (simp add: usedDeviceRecord_def)

lemma demo_verify_plain:
  "verifyRefreshToken demoPackages plainToken ctx now
     = (if refreshTokenSecret (config ctx) = ''refresh-secret''
        then Inr (demoRefreshClaims None) else Inl (JwtError ''invalid signature''))"
  by (simp add: verifyRefreshToken_def demoPackages_def demoRefreshClaims_def plainToken_def)

lemma demo_verify_device:
  "verifyRefreshToken demoPackages deviceToken ctx now
     = (if refreshTokenSecret (config ctx) = ''refresh-secret''
        then Inr (demoRefreshClaims (Some ''#F'')) else Inl (JwtError ''invalid signature''))"
  by (simp add: verifyRefreshToken_def demoPackages_def demoRefreshClaims_def deviceToken_def)

lemma refreshTokens_success:
  assumes valid: "verifyRefreshToken P rt ctx now = Inr decoded"
    and stored: "getRefreshToken rt st = Some td"
    and pass: "performSecurityChecks P td decoded ctx di now st = (None, st)"
    and acc: "generateAccessToken P \<lparr> user_id = c_userId decoded, user_email = None \<rparr> ctx now = Inr a"
    and ref: "generateRefreshToken P \<lparr> user_id = c_userId decoded, user_email = None \<rparr> ctx di jti now
                = Inr r"
    and ms: "parseExpiry (refreshTokenExpiry (config ctx)) = Inr ms"
  shows "refreshTokens P rt ctx di jti now st
           = (Inr \<lparr> accessToken = a, refreshToken = r \<rparr>,
              snd (saveRefreshToken
                     (newRefreshTokenData \<lparr> user_id = c_userId decoded, user_email = None \<rparr> r di now ms)
                     (if enableTokenRotation (securityOptions ctx)
                      then markTokenAsUsed rt st else st)))"
  using assms by (simp add: refreshTokens_def generateTokenPair_def)

text \<open>What the demo packages sign, in a context made from \<open>demoConfig\<close>.\<close>

lemma demo_access:
  "generateAccessToken demoPackages user (createAuthContext demoConfig so) now = Inr ''access...15m''"
  by (simp add: generateAccessToken_def signed_def demo_defs)

lemma demo_refresh_plain:
  "generateRefreshToken demoPackages user (createAuthContext demoConfig so) None jti now
     = Inr (''refresh.'' @ jti @ ''..15m'')"
  by (simp add: generateRefreshToken_def refreshPayload_def refreshSignOptions_def signed_def
      deviceFingerprintOf_def demo_defs)

lemma demo_refresh_device:
  "nullish (opt_enableDeviceFingerprinting so) False \<Longrightarrow> fp \<noteq> [] \<Longrightarrow>
   generateRefreshToken demoPackages user (createAuthContext demoConfig so) (Some (device fp)) jti now
     = Inr (''refresh.'' @ jti @ ''.#'' @ fp @ ''.15m'')"
  by (simp add: generateRefreshToken_def refreshPayload_def refreshSignOptions_def signed_def
      deviceFingerprintOf_def generateDeviceHash_def demo_defs)

lemma demo_expiry:
  "parseExpiry (refreshTokenExpiry (config (createAuthContext demoConfig so))) = Inr 604800000"
  by (simp add: parse_defs demo_defs)

lemma checkDeviceFingerprint_mismatch:
  "c_deviceHash decoded = Some h \<Longrightarrow> h \<noteq> [] \<Longrightarrow> fingerprint g = Some G \<Longrightarrow> G \<noteq> [] \<Longrightarrow>
   generateDeviceHash P G \<noteq> h \<Longrightarrow>
   checkDeviceFingerprint P decoded (Some g) = Some DeviceMismatch"
  by (auto simp: checkDeviceFingerprint_def deviceFingerprintOf_def)

lemma checkDeviceFingerprint_match:
  "c_deviceHash decoded = Some (generateDeviceHash P F) \<Longrightarrow> fingerprint f = Some F \<Longrightarrow>
   checkDeviceFingerprint P decoded (Some f) = None"
  by (simp add: checkDeviceFingerprint_def deviceFingerprintOf_def)

lemma demo_device_facts:
  "enableDeviceFingerprinting (securityOptions deviceContext)"
  "enableTokenRotation (securityOptions deviceContext)"
  "verifyRefreshToken demoPackages deviceToken deviceContext now
     = Inr (demoRefreshClaims (Some ''#F''))"
  "c_deviceHash (demoRefreshClaims (Some ''#F'')) = Some (generateDeviceHash demoPackages ''F'')"
  "c_userId (demoRefreshClaims h) = UserStr ''u1''"
  "generateDeviceHash demoPackages ''F'' \<noteq> []"
  "generateDeviceHash demoPackages ''G'' \<noteq> generateDeviceHash demoPackages ''F''"
  "getRefreshToken deviceToken issuedDeviceStorage = Some (usedDeviceRecord\<lparr> isUsed := False \<rparr>)"
  "\<not> isUsed (usedDeviceRecord\<lparr> isUsed := False \<rparr>)"
  "expiresAt (usedDeviceRecord\<lparr> isUsed := False \<rparr>) = 604800000"
  "fingerprint (device fp) = Some fp"
  by (simp_all add: demo_verify_device getRefreshToken_def issued_device generateDeviceHash_def)
     (simp_all add: demo_defs usedDeviceRecord_def)

lemma parseExpiry_error: "parseExpiry s = Inl e \<Longrightarrow> e = InvalidExpiryFormat s"
  by (auto simp: parseExpiry_def Let_def split: if_splits option.splits)

text \<open>\<open>parseExpiry\<close> succeeds exactly on one or more digits followed by one of s, m, h, d.\<close>

lemma parseExpiry_ok_iff:
  "(\<exists>ms. parseExpiry s = Inr ms)
     \<longleftrightarrow> (\<exists>ds u. s = ds @ [u] \<and> ds \<noteq> [] \<and> list_all isDigit ds \<and> u \<in> set ''smhd'')"
proof
  assume "\<exists>ms. parseExpiry s = Inr ms"
  then have s: "s \<noteq> []" and ds: "butlast s \<noteq> []" "list_all isDigit (butlast s)"
    and u: "units (last s) \<noteq> None"
    by (auto simp: parseExpiry_def Let_def split: if_splits option.splits)
  from u have "last s \<in> set ''smhd''" by (auto split: if_splits)
  moreover from s have "s = butlast s @ [last s]" by simp
  ultimately show "\<exists>ds u. s = ds @ [u] \<and> ds \<noteq> [] \<and> list_all isDigit ds \<and> u \<in> set ''smhd''"
    using ds by blast
next
  assume "\<exists>ds u. s = ds @ [u] \<and> ds \<noteq> [] \<and> list_all isDigit ds \<and> u \<in> set ''smhd''"
  then obtain ds u where "s = ds @ [u]" "ds \<noteq> []" "list_all isDigit ds" "u \<in> set ''smhd''"
    by blast
  then show "\<exists>ms. parseExpiry s = Inr ms"
    by (auto simp: parseExpiry_def Let_def)
qed

lemma generateTokenPair_errors:
  "fst (generateTokenPair P user ctx di jti now st) = Inl e \<Longrightarrow>
     (\<exists>msg. e = JwtError msg) \<or> parseExpiry (refreshTokenExpiry (config ctx)) = Inl e"
  by (auto simp: generateTokenPair_def generateAccessToken_def generateRefreshToken_def signed_def
      split: sum.splits)

lemma parse_abc: "parseExpiry ''abc'' = Inl (InvalidExpiryFormat ''abc'')"
  by (simp add: parse_defs)

text \<open>
  Four steps of one call, with no step of another call in between, are \<open>refreshTokens\<close>.
\<close>

lemma refreshStep_sequential:
  "interleave P ctx a b [False, False, False, False] (Begin, tb, st)
     = (Finished (fst (refreshTokens P (call_token a) ctx (call_deviceInfo a) (call_jti a)
                         (call_now a) st)),
        tb,
        snd (refreshTokens P (call_token a) ctx (call_deviceInfo a) (call_jti a) (call_now a) st))"
  by (simp add: refreshTokens_def split: sum.splits option.splits prod.splits)

lemma refreshStep_sequential_second:
  "interleave P ctx a b [True, True, True, True] (ta, Begin, st)
     = (ta,
        Finished (fst (refreshTokens P (call_token b) ctx (call_deviceInfo b) (call_jti b)
                         (call_now b) st)),
        snd (refreshTokens P (call_token b) ctx (call_deviceInfo b) (call_jti b) (call_now b) st))"
  by (simp add: refreshTokens_def split: sum.splits option.splits prod.splits)

lemma interleave_append:
  "interleave P ctx a b (xs @ ys) cfg = interleave P ctx a b ys (interleave P ctx a b xs cfg)"
proof (induction xs arbitrary: cfg)
  case Nil
  show ?case by simp
next
  case (Cons x xs)
  obtain ta tb st where cfg: "cfg = (ta, tb, st)" by (cases cfg) auto
  show ?case
    by (cases x) (simp_all add: cfg Cons.IH split: prod.splits)
qed

lemma demo_generate:
  "generateTokenPair demoPackages user (createAuthContext demoConfig so) None jti now st
     = (Inr \<lparr> accessToken = ''access...15m'', refreshToken = ''refresh.'' @ jti @ ''..15m'' \<rparr>,
        snd (saveRefreshToken
               (newRefreshTokenData user (''refresh.'' @ jti @ ''..15m'') None now 604800000) st))"
  by (simp add: generateTokenPair_def demo_access demo_refresh_plain demo_expiry)

lemma demo_checks_pass:
  "\<not> isUsed td \<Longrightarrow> now \<le> expiresAt td \<Longrightarrow>
   performSecurityChecks demoPackages td decoded demoContext None now st = (None, st)"
  by (simp add: performSecurityChecks_cases checkDeviceFingerprint_def deviceFingerprintOf_def)

text \<open>
  The untyped revision of tokenVerification.ts has no check of the kind: it returns
  whatever payload \<open>jwt.verify\<close> decodes.
\<close>

lemma untyped_verify_returns_payload:
  "verify P token (accessTokenSecret (config ctx)) now = Inr decoded
     \<Longrightarrow> verifyAccessToken_untyped P token ctx now = Inr decoded"
  "verify P token (refreshTokenSecret (config ctx)) now = Inr decoded
     \<Longrightarrow> verifyRefreshToken_untyped P token ctx now = Inr decoded"
  by (simp_all add: verifyAccessToken_untyped_def verifyRefreshToken_untyped_def)

section \<open>Facts about the counters\<close>

lemma recordRateLimitAttempt_bruteForce:
  "bruteForceEntries (recordRateLimitAttempt ident options success now st) = bruteForceEntries st"
  by (simp add: recordRateLimitAttempt_def incrementAttempts_def saveRateLimitEntry_def Let_def)

lemma recordRateLimitAttempt_quiet:
  "noTimerBefore userId H st \<Longrightarrow>
   noTimerBefore userId H (recordRateLimitAttempt ident options success now st)"
  by (simp add: noTimerBefore_def recordRateLimitAttempt_def incrementAttempts_def
      saveRateLimitEntry_def Let_def)

text \<open>Timers that do not target a user leave its brute-force entry alone.\<close>

lemma fireTimers_keep_user:
  "list_all (\<lambda>t. \<not> targetsUser userId t) due \<Longrightarrow>
   bruteForceEntries (foldl fireTimer st due) userId = bruteForceEntries st userId"
proof (induction due arbitrary: st)
  case Nil
  show ?case by simp
next
  case (Cons t due)
  obtain d tg where t: "t = (d, tg)" by (cases t)
  from Cons.prems have miss: "\<not> targetsUser userId t" and rest: "list_all (\<lambda>t. \<not> targetsUser userId t) due"
    by simp_all
  from miss have "bruteForceEntries (fireTimer st t) userId = bruteForceEntries st userId"
    by (cases tg) (auto simp: t)
  with Cons.IH [OF rest, of "fireTimer st t"] show ?case by simp
qed

lemma runTimers_keeps_user:
  assumes "noTimerBefore userId H st" "h \<le> H"
  shows "bruteForceEntries (runTimers h st) userId = bruteForceEntries st userId"
    and "noTimerBefore userId H (runTimers h st)"
proof -
  from assms have "list_all (\<lambda>t. \<not> targetsUser userId t) (filter (\<lambda>t. fst t \<le> h) (timers st))"
    by (auto simp: noTimerBefore_def list_all_iff)
  then show "bruteForceEntries (runTimers h st) userId = bruteForceEntries st userId"
    by (simp add: runTimers_def fireTimers_keep_user)
  have "timers (runTimers h st) = filter (\<lambda>t. h < fst t) (timers st)"
    by (simp add: runTimers_def)
  with assms(1) show "noTimerBefore userId H (runTimers h st)"
    by (auto simp: noTimerBefore_def list_all_iff)
qed

text \<open>Each failed attempt adds one to the user's count and keeps its lock.\<close>

lemma failed_attempt_counts:
  assumes "bf_enabled (bruteForce options)" "userId \<noteq> []"
  shows "\<exists>e. bruteForceEntries (recordAttempt ident options False (Some userId) now st) userId
               = Some e
             \<and> failedAttempts e = failedCount st userId + 1
             \<and> lockedUntil e = lockOf st userId"
  using assms
  by (auto simp: recordAttempt_def recordBruteForceAttempt_def incrementFailedAttempts_def
      saveBruteForceEntry_def Let_def failedCount_def lockOf_def recordRateLimitAttempt_bruteForce
      split: option.splits)

lemma failed_attempt_quiet:
  assumes "noTimerBefore userId H st" "H < now + timeoutDelay (lockoutDurationMs (bruteForce options))"
  shows "noTimerBefore userId H (recordAttempt ident options False (Some userId) now st)"
  using assms recordRateLimitAttempt_quiet [OF assms(1), of ident options False now]
  by (auto simp: recordAttempt_def recordBruteForceAttempt_def incrementFailedAttempts_def
      saveBruteForceEntry_def Let_def noTimerBefore_def)

lemma failed_attempts_count:
  assumes en: "bf_enabled (bruteForce options)" and user: "userId \<noteq> []"
  shows "noTimerBefore userId H st \<Longrightarrow>
         list_all (\<lambda>c. fst c \<le> H \<and> H < snd c + timeoutDelay (lockoutDurationMs (bruteForce options))) calls \<Longrightarrow>
         failedCount (recordAttemptsOnHost ident options False (Some userId) calls st) userId
           = failedCount st userId + int (length calls)
         \<and> lockOf (recordAttemptsOnHost ident options False (Some userId) calls st) userId
           = lockOf st userId
         \<and> noTimerBefore userId H (recordAttemptsOnHost ident options False (Some userId) calls st)
         \<and> (calls = []
             \<or> bruteForceEntries (recordAttemptsOnHost ident options False (Some userId) calls st)
                  userId \<noteq> None)"
proof (induction calls arbitrary: st)
  case Nil
  then show ?case by simp
next
  case (Cons c rest)
  let ?st0 = "runTimers (fst c) st"
  let ?st1 = "recordAttempt ident options False (Some userId) (snd c) ?st0"
  from Cons.prems have c: "fst c \<le> H" "H < snd c + timeoutDelay (lockoutDurationMs (bruteForce options))"
    and rest: "list_all (\<lambda>c. fst c \<le> H \<and> H < snd c + timeoutDelay (lockoutDurationMs (bruteForce options))) rest"
    by simp_all
  from runTimers_keeps_user [OF Cons.prems(1) c(1)]
  have kept: "bruteForceEntries ?st0 userId = bruteForceEntries st userId"
    and quiet0: "noTimerBefore userId H ?st0"
    by simp_all
  from failed_attempt_counts [OF en user, where ident = ident and now = "snd c" and st = ?st0]
  obtain e where e: "bruteForceEntries ?st1 userId = Some e"
      "failedAttempts e = failedCount ?st0 userId + 1" "lockedUntil e = lockOf ?st0 userId"
    by blast
  with kept have one: "failedCount ?st1 userId = failedCount st userId + 1"
      "lockOf ?st1 userId = lockOf st userId"
    by (simp_all add: failedCount_def lockOf_def)
  have quiet1: "noTimerBefore userId H ?st1"
    using quiet0 c(2) by (rule failed_attempt_quiet)
  show ?case
  proof (cases rest)
    case Nil
    with e one quiet1 show ?thesis by simp
  next
    case (Cons c' rest')
    with Cons.IH [OF quiet1 rest] one show ?thesis by simp
  qed
qed

lemma demoLimits_fields:
  "maxAttempts demoLimits = 3" "windowMs demoLimits = 1000" "blockDurationMs demoLimits = 5000"
  "\<not> skipSuccessfulRequests demoLimits" "\<not> skipFailedRequests demoLimits"
  "keyGenerator demoLimits ident = ''rateLimit:'' @ ident"
  "whitelist demoLimits = []" "blacklist demoLimits = []"
  "bf_enabled (bruteForce demoLimits)" "maxFailedAttempts (bruteForce demoLimits) = 10"
  "lockoutDurationMs (bruteForce demoLimits) = 3600000"
  "resetCountOnSuccess (bruteForce demoLimits)"
  "\<not> alerts_enabled (alerts demoLimits)"
  by (simp_all add: demoLimits_def createRateLimitContext_def)

lemmas limit_defs = recordAttempt_def recordRateLimitAttempt_def incrementAttempts_def
  saveRateLimitEntry_def createMemoryRateLimitStorage_def runTimers_def timeoutDelay_def
  Let_def

lemma stale_storage:
  "rateLimitEntries staleStorage ''rateLimit:1.2.3.4''
     = Some \<lparr> attempts = 2, firstAttempt = 0, lastAttempt = 1, blockedUntil = None \<rparr>"
  "timers staleStorage
     = [(5000, RateLimitTimer ''rateLimit:1.2.3.4''), (5001, RateLimitTimer ''rateLimit:1.2.3.4'')]"
  by (simp_all add: staleStorage_def limit_defs demoLimits_fields)

lemma attempt_on_host:
  assumes "rateLimitEntries st ''rateLimit:1.2.3.4'' = Some e"
    and "list_all (\<lambda>t. h < fst t) (timers st)"
  shows "rateLimitEntries
           (recordAttempt ''1.2.3.4'' demoLimits False None now (runTimers h st))
           ''rateLimit:1.2.3.4''
         = Some (e\<lparr> attempts := attempts e + 1, lastAttempt := now \<rparr>)"
    and "timers (recordAttempt ''1.2.3.4'' demoLimits False None now (runTimers h st))
         = timers st @ [(now + 5000, RateLimitTimer ''rateLimit:1.2.3.4'')]"
proof -
  from assms(2) have none: "filter (\<lambda>t. fst t \<le> h) (timers st) = []"
    and all: "filter (\<lambda>t. h < fst t) (timers st) = timers st"
    by (auto simp: list_all_iff filter_empty_conv filter_id_conv)
  show "rateLimitEntries
           (recordAttempt ''1.2.3.4'' demoLimits False None now (runTimers h st))
           ''rateLimit:1.2.3.4''
         = Some (e\<lparr> attempts := attempts e + 1, lastAttempt := now \<rparr>)"
    using assms(1) by (simp add: limit_defs demoLimits_fields none)
  show "timers (recordAttempt ''1.2.3.4'' demoLimits False None now (runTimers h st))
         = timers st @ [(now + 5000, RateLimitTimer ''rateLimit:1.2.3.4'')]"
    by (simp add: limit_defs demoLimits_fields all)
qed

lemma late_storage:
  "rateLimitEntries lateStorage ''rateLimit:1.2.3.4''
     = Some \<lparr> attempts = 6, firstAttempt = 0, lastAttempt = 1503, blockedUntil = None \<rparr>"
  "timers lateStorage
     = [(5000, RateLimitTimer ''rateLimit:1.2.3.4''), (5001, RateLimitTimer ''rateLimit:1.2.3.4''),
        (6500, RateLimitTimer ''rateLimit:1.2.3.4''), (6501, RateLimitTimer ''rateLimit:1.2.3.4''),
        (6502, RateLimitTimer ''rateLimit:1.2.3.4''), (6503, RateLimitTimer ''rateLimit:1.2.3.4'')]"
proof -
  let ?s1 = "recordAttempt ''1.2.3.4'' demoLimits False None 1500 (runTimers 1500 staleStorage)"
  let ?s2 = "recordAttempt ''1.2.3.4'' demoLimits False None 1501 (runTimers 1501 ?s1)"
  let ?s3 = "recordAttempt ''1.2.3.4'' demoLimits False None 1502 (runTimers 1502 ?s2)"
  let ?s4 = "recordAttempt ''1.2.3.4'' demoLimits False None 1503 (runTimers 1503 ?s3)"
  have s1: "rateLimitEntries ?s1 ''rateLimit:1.2.3.4''
       = Some \<lparr> attempts = 3, firstAttempt = 0, lastAttempt = 1500, blockedUntil = None \<rparr>"
      "timers ?s1 = timers staleStorage @ [(6500, RateLimitTimer ''rateLimit:1.2.3.4'')]"
    using attempt_on_host [OF stale_storage(1), of 1500 1500] by (simp_all add: stale_storage(2))
  have s2: "rateLimitEntries ?s2 ''rateLimit:1.2.3.4''
       = Some \<lparr> attempts = 4, firstAttempt = 0, lastAttempt = 1501, blockedUntil = None \<rparr>"
      "timers ?s2 = timers ?s1 @ [(6501, RateLimitTimer ''rateLimit:1.2.3.4'')]"
    using attempt_on_host [OF s1(1), of 1501 1501] by (simp_all add: s1(2) stale_storage(2))
  have s3: "rateLimitEntries ?s3 ''rateLimit:1.2.3.4''
       = Some \<lparr> attempts = 5, firstAttempt = 0, lastAttempt = 1502, blockedUntil = None \<rparr>"
      "timers ?s3 = timers ?s2 @ [(6502, RateLimitTimer ''rateLimit:1.2.3.4'')]"
    using attempt_on_host [OF s2(1), of 1502 1502] by (simp_all add: s2(2) s1(2) stale_storage(2))
  have s4: "rateLimitEntries ?s4 ''rateLimit:1.2.3.4''
       = Some \<lparr> attempts = 6, firstAttempt = 0, lastAttempt = 1503, blockedUntil = None \<rparr>"
      "timers ?s4 = timers ?s3 @ [(6503, RateLimitTimer ''rateLimit:1.2.3.4'')]"
    using attempt_on_host [OF s3(1), of 1503 1503]
    by (simp_all add: s3(2) s2(2) s1(2) stale_storage(2))
  have eq: "lateStorage = ?s4"
    by (simp add: lateStorage_def lateAttempts_def)
  show "rateLimitEntries lateStorage ''rateLimit:1.2.3.4''
     = Some \<lparr> attempts = 6, firstAttempt = 0, lastAttempt = 1503, blockedUntil = None \<rparr>"
    by (simp only: eq s4(1))
  show "timers lateStorage
     = [(5000, RateLimitTimer ''rateLimit:1.2.3.4''), (5001, RateLimitTimer ''rateLimit:1.2.3.4''),
        (6500, RateLimitTimer ''rateLimit:1.2.3.4''), (6501, RateLimitTimer ''rateLimit:1.2.3.4''),
        (6502, RateLimitTimer ''rateLimit:1.2.3.4''), (6503, RateLimitTimer ''rateLimit:1.2.3.4'')]"
    by (simp add: eq s4(2) s3(2) s2(2) s1(2) stale_storage(2))
qed

lemma runTimers_early:
  assumes "list_all (\<lambda>t. h < fst t) (timers st)"
  shows "rateLimitEntries (runTimers h st) = rateLimitEntries st"
proof -
  from assms have "filter (\<lambda>t. fst t \<le> h) (timers st) = []"
    by (auto simp: list_all_iff filter_empty_conv)
  then show ?thesis by (simp add: runTimers_def)
qed

lemma check_expired_window:
  assumes "rateLimitEntries st ''rateLimit:1.2.3.4'' = Some e" "blockedUntil e = None"
    "1000 < now - firstAttempt e"
  shows "checkRateLimit ''1.2.3.4'' demoLimits None now st
       = (\<lparr> allowed = True, remaining = 2, resetTime = now + 1000, retryAfter = None,
            reason = None \<rparr>, st)"
  using assms
  by (simp add: checkRateLimit_def checkIPSecurity_def isWhitelisted_def isBlacklisted_def
      checkRateLimitEntry_def getRateLimitEntry_def isBlocked_def isWindowExpired_def
      demoLimits_fields)

text \<open>Failed logins so far apart that each finds the entry of the one before deleted.\<close>

lemmas failure_defs = recordAttempt_def recordRateLimitAttempt_def recordBruteForceAttempt_def
  incrementAttempts_def incrementFailedAttempts_def saveRateLimitEntry_def
  saveBruteForceEntry_def runTimers_def timeoutDelay_def Let_def

lemma first_failure:
  "oneFailureAt 0
     (recordAttempt ''*'' demoLimits False (Some ''u1'') 0 (runTimers 0 createMemoryRateLimitStorage))"
  by (simp add: oneFailureAt_def failure_defs createMemoryRateLimitStorage_def demoLimits_fields)

lemma late_failure:
  assumes "oneFailureAt t st" "t + 3600000 \<le> t'"
  shows "oneFailureAt t' (recordAttempt ''*'' demoLimits False (Some ''u1'') t' (runTimers t' st))"
  using assms
  by (simp add: oneFailureAt_def failure_defs demoLimits_fields)

lemma slow_failures:
  "oneFailureAt 36000000
     (recordAttemptsOnHost ''*'' demoLimits False (Some ''u1'') slowFailures
        createMemoryRateLimitStorage)"
proof -
  note s0 = first_failure
  note s1 = late_failure [OF s0, of 4000000, simplified]
  note s2 = late_failure [OF s1, of 8000000, simplified]
  note s3 = late_failure [OF s2, of 12000000, simplified]
  note s4 = late_failure [OF s3, of 16000000, simplified]
  note s5 = late_failure [OF s4, of 20000000, simplified]
  note s6 = late_failure [OF s5, of 24000000, simplified]
  note s7 = late_failure [OF s6, of 28000000, simplified]
  note s8 = late_failure [OF s7, of 32000000, simplified]
  note s9 = late_failure [OF s8, of 36000000, simplified]
  from s9 show ?thesis by (simp add: slowFailures_def)
qed

lemma whitelistLimits_fields:
  "maxAttempts whitelistLimits = 3" "windowMs whitelistLimits = 1000"
  "whitelist whitelistLimits = [''10.0.0.1'']"
  "bf_enabled (bruteForce whitelistLimits)" "maxFailedAttempts (bruteForce whitelistLimits) = 10"
  "lockoutDurationMs (bruteForce whitelistLimits) = 3600000"
  "resetCountOnSuccess (bruteForce whitelistLimits)"
  by (simp_all add: whitelistLimits_def createRateLimitContext_def)

section \<open>Verification checks the kind of the token\<close>

text \<open>
  C4. Whatever \<open>jwt.verify\<close> does: when it accepts a token under the access secret and
  the decoded \<open>type\<close> is not \<open>"access"\<close>, \<open>verifyAccessToken\<close> fails with "Invalid token
  type", and likewise \<open>verifyRefreshToken\<close> for a \<open>type\<close> that is not \<open>"refresh"\<close>; so a
  payload either function returns carries the matching kind. (Both are the typed
  revision of tokenVerification.ts.)
\<close>

theorem verify_checks_kind:
  "(\<forall>decoded. verify P token (accessTokenSecret (config ctx)) now = Inr decoded
       \<and> c_type decoded \<noteq> Some ''access''
     \<longrightarrow> verifyAccessToken P token ctx now = Inl InvalidTokenType)
   \<and> (\<forall>decoded. verify P token (refreshTokenSecret (config ctx)) now = Inr decoded
       \<and> c_type decoded \<noteq> Some ''refresh''
     \<longrightarrow> verifyRefreshToken P token ctx now = Inl InvalidTokenType)
   \<and> (\<forall>d. verifyAccessToken P token ctx now = Inr d \<longrightarrow> c_type d = Some ''access'')
   \<and> (\<forall>d. verifyRefreshToken P token ctx now = Inr d \<longrightarrow> c_type d = Some ''refresh'')"
  by (auto simp: verifyAccessToken_def verifyRefreshToken_def split: sum.splits if_splits)

text \<open>
  With each secret used for the other kind, a refresh token validates under the access
  secret and an access token under the refresh secret; both are refused for their kind.
\<close>

theorem verify_checks_kind_witness:
  "verify demoPackages ''refresh.j0..15m'' (accessTokenSecret (config swappedContext)) 0
     = Inr (demoRefreshClaims None)
   \<and> c_type (demoRefreshClaims None) \<noteq> Some ''access''
   \<and> verifyAccessToken demoPackages ''refresh.j0..15m'' swappedContext 0 = Inl InvalidTokenType
   \<and> verify demoPackages ''access...15m'' (refreshTokenSecret (config swappedContext)) 0
     = Inr demoAccessClaims
   \<and> c_type demoAccessClaims \<noteq> Some ''refresh''
   \<and> verifyRefreshToken demoPackages ''access...15m'' swappedContext 0 = Inl InvalidTokenType"
proof -
  have a: "verify demoPackages ''refresh.j0..15m'' (accessTokenSecret (config swappedContext)) 0
             = Inr (demoRefreshClaims None)
           \<and> c_type (demoRefreshClaims None) \<noteq> Some ''access''"
    by (simp add: demo_defs)
  have b: "verify demoPackages ''access...15m'' (refreshTokenSecret (config swappedContext)) 0
             = Inr demoAccessClaims
           \<and> c_type demoAccessClaims \<noteq> Some ''refresh''"
    by (simp add: demo_defs)
  from a b
    verify_checks_kind [of demoPackages "''refresh.j0..15m''" swappedContext 0]
    verify_checks_kind [of demoPackages "''access...15m''" swappedContext 0]
  show ?thesis by blast
qed

section \<open>A used token is a replay\<close>

text \<open>
  C3, as amended. With concurrent-usage detection enabled, a stored record that is marked
  used makes the security checks fail with "Concurrent token usage detected" and removes
  every record of the record's user, whatever the device information and the clock are:
  the check runs before the device and expiry checks. \<open>refreshTokens\<close> on a token that
  verifies and has such a record fails the same way.
\<close>

theorem reuse_check_runs_first:
  assumes det: "enableConcurrentUsageDetection (securityOptions ctx)"
    and valid: "verifyRefreshToken P token ctx now = Inr decoded"
    and stored: "getRefreshToken token st = Some tokenData"
    and used: "isUsed tokenData"
  shows "performSecurityChecks P tokenData decoded ctx di now st
           = (Some ConcurrentUsageDetected, invalidateAllUserTokens (rt_userId tokenData) st)
         \<and> refreshTokens P token ctx di jti now st
           = (Inl ConcurrentUsageDetected, invalidateAllUserTokens (rt_userId tokenData) st)
         \<and> (\<forall>t d. tokens (invalidateAllUserTokens (rt_userId tokenData) st) t = Some d
                \<longrightarrow> rt_userId d \<noteq> rt_userId tokenData)"
proof -
  have checks: "performSecurityChecks P tokenData decoded ctx di now st
           = (Some ConcurrentUsageDetected, invalidateAllUserTokens (rt_userId tokenData) st)"
    using det used by (simp add: performSecurityChecks_cases)
  have refresh: "refreshTokens P token ctx di jti now st
           = (Inl ConcurrentUsageDetected, invalidateAllUserTokens (rt_userId tokenData) st)"
    using valid stored checks by (simp add: refreshTokens_def)
  have gone: "\<forall>t d. tokens (invalidateAllUserTokens (rt_userId tokenData) st) t = Some d
                \<longrightarrow> rt_userId d \<noteq> rt_userId tokenData"
    by (auto dest: no_tokens_of_user_left)
  from checks refresh gone show ?thesis by blast
qed

text \<open>
  A used record that is expired as well, presented from another device: the verdict is
  the replay, and the record is gone.
\<close>

theorem reuse_check_runs_first_witness:
  "enableConcurrentUsageDetection (securityOptions deviceContext)
   \<and> verifyRefreshToken demoPackages deviceToken deviceContext 604800001
       = Inr (demoRefreshClaims (Some ''#F''))
   \<and> getRefreshToken deviceToken usedDeviceStorage = Some usedDeviceRecord
   \<and> isUsed usedDeviceRecord
   \<and> expiresAt usedDeviceRecord < 604800001
   \<and> checkDeviceFingerprint demoPackages (demoRefreshClaims (Some ''#F'')) (Some (device ''G''))
       = Some DeviceMismatch
   \<and> refreshTokens demoPackages deviceToken deviceContext (Some (device ''G'')) ''j1'' 604800001
         usedDeviceStorage
       = (Inl ConcurrentUsageDetected, invalidateAllUserTokens (UserStr ''u1'') usedDeviceStorage)
   \<and> tokens (invalidateAllUserTokens (UserStr ''u1'') usedDeviceStorage) deviceToken = None"
proof -
  have det: "enableConcurrentUsageDetection (securityOptions deviceContext)"
    by (simp add: demo_defs)
  have valid: "verifyRefreshToken demoPackages deviceToken deviceContext 604800001
       = Inr (demoRefreshClaims (Some ''#F''))"
    by (simp add: demo_verify_device) (simp add: demo_defs)
  note stored = used_device
  have used: "isUsed usedDeviceRecord" "expiresAt usedDeviceRecord < 604800001"
    by (simp_all add: usedDeviceRecord_def)
  have mismatch: "checkDeviceFingerprint demoPackages (demoRefreshClaims (Some ''#F''))
       (Some (device ''G'')) = Some DeviceMismatch"
    by (simp add: checkDeviceFingerprint_def deviceFingerprintOf_def generateDeviceHash_def demo_defs)
  have uid: "rt_userId usedDeviceRecord = UserStr ''u1''"
    by (simp add: usedDeviceRecord_def)
  have gone: "tokens (invalidateAllUserTokens (UserStr ''u1'') usedDeviceStorage) deviceToken = None"
    using stored by (simp add: invalidateAllUserTokens_def getRefreshToken_def usedDeviceRecord_def)
  from reuse_check_runs_first [OF det valid stored used(1), of "Some (device ''G'')" "''j1''"]
    det valid stored used mismatch uid gone
  show ?thesis by simp
qed

text \<open>
  The claim as stated fails where detection is switched off: the used record passes the
  checks and the token is refreshed again.
\<close>

theorem reuse_check_counterexample:
  "getRefreshToken plainToken usedStorage = Some usedRecord
   \<and> isUsed usedRecord
   \<and> performSecurityChecks demoPackages usedRecord (demoRefreshClaims None) noDetectionContext
        None 5 usedStorage = (None, usedStorage)
   \<and> fst (refreshTokens demoPackages plainToken noDetectionContext None ''j1'' 5 usedStorage)
       = Inr \<lparr> accessToken = ''access...15m'', refreshToken = ''refresh.j1..15m'' \<rparr>"
proof -
  note stored = used_plain
  have used: "isUsed usedRecord" by (simp add: usedRecord_def)
  have checks: "performSecurityChecks demoPackages usedRecord (demoRefreshClaims None)
        noDetectionContext None 5 usedStorage = (None, usedStorage)"
    by (simp add: performSecurityChecks_cases demo_defs usedRecord_def)
  have valid: "verifyRefreshToken demoPackages plainToken noDetectionContext 5
       = Inr (demoRefreshClaims None)"
    by (simp add: demo_verify_plain) (simp add: demo_defs)
  have gen: "fst (generateTokenPair demoPackages \<lparr> user_id = UserStr ''u1'', user_email = None \<rparr>
       noDetectionContext None ''j1'' 5 s)
       = Inr \<lparr> accessToken = ''access...15m'', refreshToken = ''refresh.j1..15m'' \<rparr>" for s
    by (simp add: generation_defs parse_defs demo_defs)
  have "fst (refreshTokens demoPackages plainToken noDetectionContext None ''j1'' 5 usedStorage)
       = Inr \<lparr> accessToken = ''access...15m'', refreshToken = ''refresh.j1..15m'' \<rparr>"
    using valid stored checks gen by (simp add: refreshTokens_def demoRefreshClaims_def)
  with stored used checks show ?thesis by simp
qed

section \<open>A rotated token cannot be refreshed again\<close>




section \<open>A device mismatch does not consume the token\<close>

text \<open>
  C7, as amended. Device fingerprinting is enabled. A refresh token is stored and not
  yet used, it verifies at the time of the call (signature and expiry of the token
  itself), and its payload carries the hash of fingerprint \<open>F\<close> (a hash is not empty).
  Presented with a fingerprint \<open>G\<close> that is not empty and whose hash differs,
  \<open>refreshTokens\<close> fails with "Device mismatch detected" and the storage is left as it
  was. A refresh of the same token with fingerprint \<open>F\<close> afterwards succeeds whenever the
  token still verifies then, with the same device hash, the record has not expired, both
  new tokens can be signed and the refresh expiry string parses.
\<close>

theorem device_mismatch_keeps_state:
  assumes fp: "enableDeviceFingerprinting (securityOptions ctx)"
    and valid: "verifyRefreshToken P rt ctx now = Inr decoded"
    and bound: "c_deviceHash decoded = Some (generateDeviceHash P F)"
    and nonempty: "generateDeviceHash P F \<noteq> []"
    and stored: "getRefreshToken rt st = Some tokenData"
    and unused: "\<not> isUsed tokenData"
    and other: "fingerprint g = Some G" "G \<noteq> []"
      "generateDeviceHash P G \<noteq> generateDeviceHash P F"
  shows "refreshTokens P rt ctx (Some g) jti now st = (Inl DeviceMismatch, st)
         \<and> (\<forall>f now2 jti2 decoded2 a r ms.
               fingerprint f = Some F
               \<and> verifyRefreshToken P rt ctx now2 = Inr decoded2
               \<and> c_deviceHash decoded2 = Some (generateDeviceHash P F)
               \<and> now2 \<le> expiresAt tokenData
               \<and> generateAccessToken P \<lparr> user_id = c_userId decoded2, user_email = None \<rparr> ctx now2
                   = Inr a
               \<and> generateRefreshToken P \<lparr> user_id = c_userId decoded2, user_email = None \<rparr> ctx
                     (Some f) jti2 now2 = Inr r
               \<and> parseExpiry (refreshTokenExpiry (config ctx)) = Inr ms
               \<longrightarrow> fst (refreshTokens P rt ctx (Some f) jti2 now2
                          (snd (refreshTokens P rt ctx (Some g) jti now st)))
                     = Inr \<lparr> accessToken = a, refreshToken = r \<rparr>)"
proof -
  have mismatch: "checkDeviceFingerprint P decoded (Some g) = Some DeviceMismatch"
    using bound nonempty other by (rule checkDeviceFingerprint_mismatch)
  have refused: "refreshTokens P rt ctx (Some g) jti now st = (Inl DeviceMismatch, st)"
    using valid stored unused fp mismatch
    by (simp add: refreshTokens_def performSecurityChecks_cases)
  have again: "fst (refreshTokens P rt ctx (Some f) jti2 now2 st) = Inr \<lparr> accessToken = a, refreshToken = r \<rparr>"
    if f: "fingerprint f = Some F"
      and v2: "verifyRefreshToken P rt ctx now2 = Inr decoded2"
      and b2: "c_deviceHash decoded2 = Some (generateDeviceHash P F)"
      and live: "now2 \<le> expiresAt tokenData"
      and acc: "generateAccessToken P \<lparr> user_id = c_userId decoded2, user_email = None \<rparr> ctx now2
                   = Inr a"
      and ref: "generateRefreshToken P \<lparr> user_id = c_userId decoded2, user_email = None \<rparr> ctx
                     (Some f) jti2 now2 = Inr r"
      and ms: "parseExpiry (refreshTokenExpiry (config ctx)) = Inr ms"
    for f now2 jti2 decoded2 a r ms
  proof -
    have "checkDeviceFingerprint P decoded2 (Some f) = None"
      using b2 f by (rule checkDeviceFingerprint_match)
    then have pass: "performSecurityChecks P tokenData decoded2 ctx (Some f) now2 st = (None, st)"
      using unused live by (simp add: performSecurityChecks_cases)
    from refreshTokens_success [OF v2 stored pass acc ref ms] show ?thesis by simp
  qed
  from refused again show ?thesis by auto
qed

text \<open>Issued with fingerprint \<open>F\<close>: refused for \<open>G\<close>, then refreshed for \<open>F\<close>.\<close>

theorem device_mismatch_keeps_state_witness:
  "enableDeviceFingerprinting (securityOptions deviceContext)
   \<and> verifyRefreshToken demoPackages deviceToken deviceContext 5
       = Inr (demoRefreshClaims (Some ''#F''))
   \<and> c_deviceHash (demoRefreshClaims (Some ''#F'')) = Some (generateDeviceHash demoPackages ''F'')
   \<and> getRefreshToken deviceToken issuedDeviceStorage = Some (usedDeviceRecord\<lparr> isUsed := False \<rparr>)
   \<and> generateDeviceHash demoPackages ''G'' \<noteq> generateDeviceHash demoPackages ''F''
   \<and> refreshTokens demoPackages deviceToken deviceContext (Some (device ''G'')) ''j1'' 5
         issuedDeviceStorage
       = (Inl DeviceMismatch, issuedDeviceStorage)
   \<and> fst (refreshTokens demoPackages deviceToken deviceContext (Some (device ''F'')) ''j2'' 6
            (snd (refreshTokens demoPackages deviceToken deviceContext (Some (device ''G'')) ''j1'' 5
                    issuedDeviceStorage)))
       = Inr \<lparr> accessToken = ''access...15m'', refreshToken = ''refresh.j2.#F.15m'' \<rparr>"
proof -
  note d = demo_device_facts
  have G: "''G'' \<noteq> ([]::string)" by simp
  note inst = device_mismatch_keeps_state
    [OF d(1) d(3) d(4) d(6) d(8) d(9) d(11) G d(7), where now = 5 and jti = "''j1''"]
  have acc: "generateAccessToken demoPackages
       \<lparr> user_id = c_userId (demoRefreshClaims (Some ''#F'')), user_email = None \<rparr> deviceContext 6
       = Inr ''access...15m''"
    by (simp add: deviceContext_def demo_access)
  have ref: "generateRefreshToken demoPackages
       \<lparr> user_id = c_userId (demoRefreshClaims (Some ''#F'')), user_email = None \<rparr> deviceContext
       (Some (device ''F'')) ''j2'' 6 = Inr ''refresh.j2.#F.15m''"
    by (simp add: deviceContext_def demo_refresh_device)
  have ms: "parseExpiry (refreshTokenExpiry (config deviceContext)) = Inr 604800000"
    by (simp add: deviceContext_def demo_expiry)
  have live: "6 \<le> expiresAt (usedDeviceRecord\<lparr> isUsed := False \<rparr>)"
    by (simp add: d(10))
  from inst have first: "refreshTokens demoPackages deviceToken deviceContext (Some (device ''G''))
         ''j1'' 5 issuedDeviceStorage = (Inl DeviceMismatch, issuedDeviceStorage)"
    by (rule conjunct1)
  from inst [THEN conjunct2, rule_format, of "device ''F''" 6 "demoRefreshClaims (Some ''#F'')"
      "''access...15m''" "''j2''" "''refresh.j2.#F.15m''" 604800000]
    d(11) [of "''F''"] d(3) [of 6] d(4) live acc ref ms
  have second: "fst (refreshTokens demoPackages deviceToken deviceContext (Some (device ''F''))
            ''j2'' 6
            (snd (refreshTokens demoPackages deviceToken deviceContext (Some (device ''G'')) ''j1'' 5
                    issuedDeviceStorage)))
       = Inr \<lparr> accessToken = ''access...15m'', refreshToken = ''refresh.j2.#F.15m'' \<rparr>"
    by blast
  from d(1) d(3) [of 5] d(4) d(8) d(7) first second show ?thesis by blast
qed

text \<open>
  The claim as stated fails for the empty fingerprint, which differs from \<open>F\<close>: no
  comparison is made, the refresh succeeds and the token is marked used.
\<close>

theorem device_mismatch_counterexample:
  "fingerprint (device []) = Some []
   \<and> [] \<noteq> ''F''
   \<and> enableDeviceFingerprinting (securityOptions deviceContext)
   \<and> c_deviceHash (demoRefreshClaims (Some ''#F'')) = Some (generateDeviceHash demoPackages ''F'')
   \<and> getRefreshToken deviceToken issuedDeviceStorage = Some (usedDeviceRecord\<lparr> isUsed := False \<rparr>)
   \<and> fst (refreshTokens demoPackages deviceToken deviceContext (Some (device [])) ''j1'' 5
            issuedDeviceStorage)
       = Inr \<lparr> accessToken = ''access...15m'', refreshToken = ''refresh.j1..15m'' \<rparr>
   \<and> getRefreshToken deviceToken
        (snd (refreshTokens demoPackages deviceToken deviceContext (Some (device [])) ''j1'' 5
                issuedDeviceStorage))
       = Some usedDeviceRecord"
proof -
  note d = demo_device_facts
  have skip: "checkDeviceFingerprint demoPackages (demoRefreshClaims (Some ''#F''))
                (Some (device [])) = None"
    by (simp add: checkDeviceFingerprint_def deviceFingerprintOf_def device_def)
  have pass: "performSecurityChecks demoPackages (usedDeviceRecord\<lparr> isUsed := False \<rparr>)
                (demoRefreshClaims (Some ''#F'')) deviceContext (Some (device [])) 5
                issuedDeviceStorage = (None, issuedDeviceStorage)"
    by (simp add: performSecurityChecks_cases skip d(10))
  have acc: "generateAccessToken demoPackages
       \<lparr> user_id = c_userId (demoRefreshClaims (Some ''#F'')), user_email = None \<rparr> deviceContext 5
       = Inr ''access...15m''"
    by (simp add: deviceContext_def demo_access)
  have ref: "generateRefreshToken demoPackages
       \<lparr> user_id = c_userId (demoRefreshClaims (Some ''#F'')), user_email = None \<rparr> deviceContext
       (Some (device [])) ''j1'' 5 = Inr ''refresh.j1..15m''"
    by (simp add: generateRefreshToken_def refreshPayload_def refreshSignOptions_def signed_def
        deviceFingerprintOf_def demo_defs)
  have ms: "parseExpiry (refreshTokenExpiry (config deviceContext)) = Inr 604800000"
    by (simp add: deviceContext_def demo_expiry)
  note run = refreshTokens_success [OF d(3) d(8) pass acc ref ms]
  have neq: "deviceToken \<noteq> ''refresh.j1..15m''"
    by (simp add: deviceToken_def)
  have consumed: "getRefreshToken deviceToken
        (snd (refreshTokens demoPackages deviceToken deviceContext (Some (device [])) ''j1'' 5
                issuedDeviceStorage))
       = Some usedDeviceRecord"
    using neq d(2)
    by (simp add: run getRefreshToken_def tokens_after_save tokens_after_mark issued_device
        newRefreshTokenData_def)
       (simp add: usedDeviceRecord_def)
  from run have ok: "fst (refreshTokens demoPackages deviceToken deviceContext (Some (device []))
            ''j1'' 5 issuedDeviceStorage)
       = Inr \<lparr> accessToken = ''access...15m'', refreshToken = ''refresh.j1..15m'' \<rparr>"
    by simp
  from d(11) [of "[]"] d(1) d(4) d(8) ok consumed show ?thesis by simp
qed

section \<open>No fingerprint, no device check\<close>



section \<open>The expiry of the refresh token\<close>

text \<open>
  C5. In the default context (access expiry "15m", refresh expiry "7d")
  \<open>generateRefreshToken\<close> of tokenGeneration.ts hands \<open>jwt.sign\<close> the access expiry
  "15m" as \<open>expiresIn\<close>, while \<open>generateTokenPair\<close> stores the record with
  \<open>expiresAt\<close> seven days (604800000 ms) after \<open>now\<close>; the revision that parses the expiry
  signs with the parsed refresh expiry.
\<close>

theorem refresh_token_signed_with_access_expiry:
  "accessTokenExpiry (config demoContext) = ''15m''
   \<and> refreshTokenExpiry (config demoContext) = ''7d''
   \<and> refreshSignOptions demoContext = ExpiresInString ''15m''
   \<and> generateRefreshToken demoPackages demoUser demoContext None ''j0'' 0 = Inr ''refresh.j0..15m''
   \<and> map_option expiresAt (tokens issuedStorage ''refresh.j0..15m'') = Some (0 + 604800000)
   \<and> parseExpiry ''15m'' = Inr 900000
   \<and> parseExpiry ''7d'' = Inr 604800000
   \<and> refreshSignOptions_parsed demoContext = Inr (ExpiresInNumber 604800000)"
proof -
  have cfg: "accessTokenExpiry (config demoContext) = ''15m''"
    "refreshTokenExpiry (config demoContext) = ''7d''"
    by (simp_all add: demo_defs)
  have opts: "refreshSignOptions demoContext = ExpiresInString ''15m''"
    by (simp add: refreshSignOptions_def cfg)
  have tok: "generateRefreshToken demoPackages demoUser demoContext None ''j0'' 0
               = Inr ''refresh.j0..15m''"
    using demo_refresh_plain [of demoUser noSecurityOptions "''j0''" 0]
    by (simp add: demoContext_def)
  have rec: "map_option expiresAt (tokens issuedStorage ''refresh.j0..15m'') = Some (0 + 604800000)"
    using issued_plain by (simp add: plainToken_def usedRecord_def)
  have p: "parseExpiry ''15m'' = Inr 900000" "parseExpiry ''7d'' = Inr 604800000"
    by (simp_all add: parse_defs)
  have v2: "refreshSignOptions_parsed demoContext = Inr (ExpiresInNumber 604800000)"
    by (simp add: refreshSignOptions_parsed_def cfg p)
  from cfg opts tok rec p v2 show ?thesis by simp
qed

section \<open>Expiry strings are parsed when a token is signed\<close>

text \<open>
  C6, as amended. \<open>createAuthContext\<close> returns a context for every configuration and
  copies the expiry strings as they are ("15m" and "7d" stand in for an absent or empty
  one). A malformed refresh expiry is found by \<open>generateTokenPair\<close>: once both tokens are
  signed it fails with "Invalid expiry format" and stores nothing; the revision that
  parses before signing fails the same way on a malformed access expiry. With a
  well-formed refresh expiry \<open>generateTokenPair\<close> never fails with that error.
\<close>

theorem expiry_is_checked_at_sign_time:
  "accessTokenExpiry (config (createAuthContext cfg so)) = orDefault (cfg_accessTokenExpiry cfg) ''15m''
   \<and> refreshTokenExpiry (config (createAuthContext cfg so))
       = orDefault (cfg_refreshTokenExpiry cfg) ''7d''
   \<and> (\<forall>e a r. parseExpiry (refreshTokenExpiry (config (createAuthContext cfg so))) = Inl e
         \<and> generateAccessToken P user (createAuthContext cfg so) now = Inr a
         \<and> generateRefreshToken P user (createAuthContext cfg so) di jti now = Inr r
       \<longrightarrow> e = InvalidExpiryFormat (refreshTokenExpiry (config (createAuthContext cfg so)))
           \<and> generateTokenPair P user (createAuthContext cfg so) di jti now st = (Inl e, st))
   \<and> (\<forall>e. parseExpiry (accessTokenExpiry (config (createAuthContext cfg so))) = Inl e
       \<longrightarrow> e = InvalidExpiryFormat (accessTokenExpiry (config (createAuthContext cfg so)))
           \<and> generateTokenPair_parsed P user (createAuthContext cfg so) di jti now st = (Inl e, st))
   \<and> (\<forall>ms x. parseExpiry (refreshTokenExpiry (config (createAuthContext cfg so))) = Inr ms
       \<longrightarrow> fst (generateTokenPair P user (createAuthContext cfg so) di jti now st)
             \<noteq> Inl (InvalidExpiryFormat x))"
proof -
  let ?ctx = "createAuthContext cfg so"
  have copy: "accessTokenExpiry (config ?ctx) = orDefault (cfg_accessTokenExpiry cfg) ''15m''"
      "refreshTokenExpiry (config ?ctx) = orDefault (cfg_refreshTokenExpiry cfg) ''7d''"
    by (simp_all add: createAuthContext_def)
  have lazy: "e = InvalidExpiryFormat (refreshTokenExpiry (config ?ctx))
           \<and> generateTokenPair P user ?ctx di jti now st = (Inl e, st)"
    if "parseExpiry (refreshTokenExpiry (config ?ctx)) = Inl e"
      "generateAccessToken P user ?ctx now = Inr a"
      "generateRefreshToken P user ?ctx di jti now = Inr r" for e a r
    using that by (simp add: generateTokenPair_def parseExpiry_error)
  have parsed: "e = InvalidExpiryFormat (accessTokenExpiry (config ?ctx))
           \<and> generateTokenPair_parsed P user ?ctx di jti now st = (Inl e, st)"
    if "parseExpiry (accessTokenExpiry (config ?ctx)) = Inl e" for e
    using that
    by (simp add: generateTokenPair_parsed_def generateAccessToken_parsed_def parseExpiry_error)
  have fine: "fst (generateTokenPair P user ?ctx di jti now st) \<noteq> Inl (InvalidExpiryFormat x)"
    if "parseExpiry (refreshTokenExpiry (config ?ctx)) = Inr ms" for ms x
    using that generateTokenPair_errors [of P user ?ctx di jti now st "InvalidExpiryFormat x"]
    by auto
  from copy lazy parsed fine show ?thesis by blast
qed

text \<open>The refresh expiry "abc" fails at signing time; the default "7d" does not.\<close>

theorem expiry_is_checked_at_sign_time_witness:
  "parseExpiry (refreshTokenExpiry (config (createAuthContext badConfig noSecurityOptions)))
     = Inl (InvalidExpiryFormat ''abc'')
   \<and> generateAccessToken demoPackages demoUser (createAuthContext badConfig noSecurityOptions) 0
       = Inr ''access...15m''
   \<and> generateRefreshToken demoPackages demoUser (createAuthContext badConfig noSecurityOptions)
         None ''j0'' 0 = Inr ''refresh.j0..15m''
   \<and> generateTokenPair demoPackages demoUser (createAuthContext badConfig noSecurityOptions)
         None ''j0'' 0 createMemoryStorage
       = (Inl (InvalidExpiryFormat ''abc''), createMemoryStorage)
   \<and> parseExpiry (refreshTokenExpiry (config (createAuthContext demoConfig noSecurityOptions)))
       = Inr 604800000
   \<and> fst (generateTokenPair demoPackages demoUser (createAuthContext demoConfig noSecurityOptions)
            None ''j0'' 0 createMemoryStorage)
       \<noteq> Inl (InvalidExpiryFormat ''7d'')"
proof -
  have bad: "parseExpiry (refreshTokenExpiry (config (createAuthContext badConfig noSecurityOptions)))
     = Inl (InvalidExpiryFormat ''abc'')"
    by (simp add: createAuthContext_def badConfig_def parse_abc)
  have acc: "generateAccessToken demoPackages demoUser
       (createAuthContext badConfig noSecurityOptions) 0 = Inr ''access...15m''"
    by (simp add: generateAccessToken_def signed_def badConfig_def demo_defs)
  have ref: "generateRefreshToken demoPackages demoUser
       (createAuthContext badConfig noSecurityOptions) None ''j0'' 0 = Inr ''refresh.j0..15m''"
    by (simp add: generateRefreshToken_def refreshPayload_def refreshSignOptions_def signed_def
        deviceFingerprintOf_def badConfig_def demo_defs)
  note good = demo_expiry [of noSecurityOptions]
  from expiry_is_checked_at_sign_time
      [of badConfig noSecurityOptions demoPackages demoUser 0 None "''j0''" createMemoryStorage]
    bad acc ref
  have fails: "generateTokenPair demoPackages demoUser (createAuthContext badConfig noSecurityOptions)
         None ''j0'' 0 createMemoryStorage
       = (Inl (InvalidExpiryFormat ''abc''), createMemoryStorage)"
    by blast
  from expiry_is_checked_at_sign_time
      [of demoConfig noSecurityOptions demoPackages demoUser 0 None "''j0''" createMemoryStorage]
    good
  have fine: "fst (generateTokenPair demoPackages demoUser
            (createAuthContext demoConfig noSecurityOptions) None ''j0'' 0 createMemoryStorage)
       \<noteq> Inl (InvalidExpiryFormat ''7d'')"
    by blast
  from bad acc ref fails good fine show ?thesis by blast
qed

text \<open>
  The claim as stated fails: \<open>createAuthContext\<close> accepts the refresh expiry "abc", and
  \<open>generateTokenPair\<close> on the context it returns fails with "Invalid expiry format".
\<close>

theorem expiry_checked_at_construction_counterexample:
  "cfg_refreshTokenExpiry badConfig = Some ''abc''
   \<and> parseExpiry ''abc'' = Inl (InvalidExpiryFormat ''abc'')
   \<and> refreshTokenExpiry (config (createAuthContext badConfig noSecurityOptions)) = ''abc''
   \<and> fst (generateTokenPair demoPackages demoUser (createAuthContext badConfig noSecurityOptions)
            None ''j0'' 0 createMemoryStorage)
       = Inl (InvalidExpiryFormat ''abc'')
   \<and> fst (generateTokenPair_parsed demoPackages demoUser
            (createAuthContext badConfig noSecurityOptions) None ''j0'' 0 createMemoryStorage)
       = Inl (InvalidExpiryFormat ''abc'')"
proof -
  have c: "cfg_refreshTokenExpiry badConfig = Some ''abc''"
    "refreshTokenExpiry (config (createAuthContext badConfig noSecurityOptions)) = ''abc''"
    by (simp_all add: createAuthContext_def badConfig_def)
  have acc: "generateAccessToken demoPackages demoUser
       (createAuthContext badConfig noSecurityOptions) 0 = Inr ''access...15m''"
    by (simp add: generateAccessToken_def signed_def badConfig_def demo_defs)
  have ref: "generateRefreshToken demoPackages demoUser
       (createAuthContext badConfig noSecurityOptions) None ''j0'' 0 = Inr ''refresh.j0..15m''"
    by (simp add: generateRefreshToken_def refreshPayload_def refreshSignOptions_def signed_def
        deviceFingerprintOf_def badConfig_def demo_defs)
  have one: "fst (generateTokenPair demoPackages demoUser
            (createAuthContext badConfig noSecurityOptions) None ''j0'' 0 createMemoryStorage)
       = Inl (InvalidExpiryFormat ''abc'')"
    by (simp add: generateTokenPair_def acc ref c parse_abc)
  have acc2: "generateAccessToken_parsed demoPackages demoUser
       (createAuthContext badConfig noSecurityOptions) 0 = Inr ''access...900000''"
    by (simp add: generateAccessToken_parsed_def signed_def badConfig_def demo_defs parse_defs)
       (simp add: toString.simps [of 900000] toString.simps [of 90000] toString.simps [of 9000]
          toString.simps [of 900] toString.simps [of 90] toString.simps [of 9] digitChar_def)
  have two: "fst (generateTokenPair_parsed demoPackages demoUser
            (createAuthContext badConfig noSecurityOptions) None ''j0'' 0 createMemoryStorage)
       = Inl (InvalidExpiryFormat ''abc'')"
    by (simp add: generateTokenPair_parsed_def generateRefreshToken_parsed_def
        refreshSignOptions_parsed_def acc2 c parse_abc)
  from c parse_abc one two show ?thesis by simp
qed

section \<open>Two concurrent refreshes of one token\<close>

text \<open>
  C1. The storage holds the unused record of a token, and two calls of \<open>refreshTokens\<close>
  present that token. When their steps alternate, as they do for two calls started
  together, each call reads the record before the other has marked it, and both
  return a new token pair. When the first call finishes before the second starts, the
  second fails with "Concurrent token usage detected".
\<close>

theorem concurrent_refreshes_both_succeed:
  "getRefreshToken plainToken issuedStorage = Some (usedRecord\<lparr> isUsed := False \<rparr>)
   \<and> fst (interleave demoPackages demoContext callA callB alternating (Begin, Begin, issuedStorage))
       = Finished (Inr \<lparr> accessToken = ''access...15m'', refreshToken = ''refresh.j1..15m'' \<rparr>)
   \<and> fst (snd (interleave demoPackages demoContext callA callB alternating
                  (Begin, Begin, issuedStorage)))
       = Finished (Inr \<lparr> accessToken = ''access...15m'', refreshToken = ''refresh.j2..15m'' \<rparr>)
   \<and> fst (snd (interleave demoPackages demoContext callA callB oneAfterTheOther
                  (Begin, Begin, issuedStorage)))
       = Finished (Inl ConcurrentUsageDetected)"
proof -
  have stored: "getRefreshToken plainToken issuedStorage = Some (usedRecord\<lparr> isUsed := False \<rparr>)"
    by (simp add: getRefreshToken_def issued_plain)
  have valid: "verifyRefreshToken demoPackages plainToken demoContext 5
                 = Inr (demoRefreshClaims None)"
    by (simp add: demo_verify_plain) (simp add: demo_defs)
  have pass: "performSecurityChecks demoPackages (usedRecord\<lparr> isUsed := False \<rparr>)
                (demoRefreshClaims None) demoContext None 5 st = (None, st)" for st
    by (rule demo_checks_pass) (simp_all add: usedRecord_def)
  have rot: "enableTokenRotation (securityOptions demoContext)"
    "enableConcurrentUsageDetection (securityOptions demoContext)"
    by (simp_all add: demo_defs)
  have gen: "generateTokenPair demoPackages user demoContext None jti 5 st
     = (Inr \<lparr> accessToken = ''access...15m'', refreshToken = ''refresh.'' @ jti @ ''..15m'' \<rparr>,
        snd (saveRefreshToken
               (newRefreshTokenData user (''refresh.'' @ jti @ ''..15m'') None 5 604800000) st))"
    for user jti st
    by (simp add: demoContext_def demo_generate)
  have both: "fst (interleave demoPackages demoContext callA callB alternating
                    (Begin, Begin, issuedStorage))
        = Finished (Inr \<lparr> accessToken = ''access...15m'', refreshToken = ''refresh.j1..15m'' \<rparr>)"
     "fst (snd (interleave demoPackages demoContext callA callB alternating
                  (Begin, Begin, issuedStorage)))
        = Finished (Inr \<lparr> accessToken = ''access...15m'', refreshToken = ''refresh.j2..15m'' \<rparr>)"
    by (simp_all add: alternating_def callA_def callB_def valid stored pass rot gen)
  have neq: "plainToken \<noteq> ''refresh.j1..15m''"
    by (simp add: plainToken_def)
  have first: "refreshTokens demoPackages plainToken demoContext None ''j1'' 5 issuedStorage
      = (Inr \<lparr> accessToken = ''access...15m'', refreshToken = ''refresh.j1..15m'' \<rparr>,
         snd (saveRefreshToken
               (newRefreshTokenData \<lparr> user_id = c_userId (demoRefreshClaims None), user_email = None \<rparr>
                  ''refresh.j1..15m'' None 5 604800000)
               (markTokenAsUsed plainToken issuedStorage)))"
    by (simp add: refreshTokens_def valid stored pass rot gen)
  have marked: "getRefreshToken plainToken
        (snd (refreshTokens demoPackages plainToken demoContext None ''j1'' 5 issuedStorage))
      = Some usedRecord"
    using neq
    by (simp add: first getRefreshToken_def tokens_after_save tokens_after_mark issued_plain
        newRefreshTokenData_def)
       (simp add: usedRecord_def)
  have used: "isUsed usedRecord" by (simp add: usedRecord_def)
  have second: "fst (refreshTokens demoPackages plainToken demoContext None ''j2'' 5
        (snd (refreshTokens demoPackages plainToken demoContext None ''j1'' 5 issuedStorage)))
      = Inl ConcurrentUsageDetected"
    using valid marked used rot by (simp add: refreshTokens_def performSecurityChecks_cases)
  have seq: "fst (snd (interleave demoPackages demoContext callA callB oneAfterTheOther
                  (Begin, Begin, issuedStorage)))
       = Finished (Inl ConcurrentUsageDetected)"
  proof -
    have "oneAfterTheOther = [False, False, False, False] @ [True, True, True, True]"
      by (simp add: oneAfterTheOther_def)
    then have "interleave demoPackages demoContext callA callB oneAfterTheOther
                 (Begin, Begin, issuedStorage)
        = interleave demoPackages demoContext callA callB [True, True, True, True]
            (interleave demoPackages demoContext callA callB [False, False, False, False]
               (Begin, Begin, issuedStorage))"
      using interleave_append [of demoPackages demoContext callA callB
          "[False, False, False, False]" "[True, True, True, True]"]
      by simp
    then show ?thesis
      by (simp only: refreshStep_sequential refreshStep_sequential_second)
         (simp add: callA_def callB_def second)
  qed
  from stored both seq show ?thesis by simp
qed

section \<open>The window of a counter\<close>

text \<open>
  C8. Three attempts a second, blocks of five seconds, and a host that runs every timer
  as it comes due. An address makes two attempts at 0 and 1 ms. At 1500 ms its window
  has run out: \<open>checkRateLimit\<close> allows the request with the budget of a first request
  and leaves the entry as it is. Four further attempts are added to the old entry, which
  then counts six attempts since 0 ms; the next check still finds the old window run out
  and allows the request, while the same four attempts counted in a window of their own
  are refused. The old entry stays until the timer of the first attempt deletes it at
  5000 ms.
\<close>

theorem expired_window_is_not_reset:
  "rateLimitEntries staleStorage ''rateLimit:1.2.3.4''
     = Some \<lparr> attempts = 2, firstAttempt = 0, lastAttempt = 1, blockedUntil = None \<rparr>
   \<and> isWindowExpired 0 (windowMs demoLimits) 1500
   \<and> fst (checkRateLimitOnHost ''1.2.3.4'' demoLimits None (1500, 1500) staleStorage)
       = \<lparr> allowed = True, remaining = 2, resetTime = 2500, retryAfter = None, reason = None \<rparr>
   \<and> rateLimitEntries (snd (checkRateLimitOnHost ''1.2.3.4'' demoLimits None (1500, 1500)
                               staleStorage)) ''rateLimit:1.2.3.4''
       = Some \<lparr> attempts = 2, firstAttempt = 0, lastAttempt = 1, blockedUntil = None \<rparr>
   \<and> rateLimitEntries lateStorage ''rateLimit:1.2.3.4''
       = Some \<lparr> attempts = 6, firstAttempt = 0, lastAttempt = 1503, blockedUntil = None \<rparr>
   \<and> fst (checkRateLimitOnHost ''1.2.3.4'' demoLimits None (1504, 1504) lateStorage)
       = \<lparr> allowed = True, remaining = 2, resetTime = 2504, retryAfter = None, reason = None \<rparr>
   \<and> fst (checkRateLimitOnHost ''1.2.3.4'' demoLimits None (1504, 1504)
            (recordAttemptsOnHost ''1.2.3.4'' demoLimits False None lateAttempts
               createMemoryRateLimitStorage))
       = \<lparr> allowed = False, remaining = 0, resetTime = 6504, retryAfter = Some 5000,
           reason = Some ''Rate limit exceeded'' \<rparr>
   \<and> rateLimitEntries (runTimers 4999 lateStorage) ''rateLimit:1.2.3.4''
       = Some \<lparr> attempts = 6, firstAttempt = 0, lastAttempt = 1503, blockedUntil = None \<rparr>
   \<and> rateLimitEntries (runTimers 5000 lateStorage) ''rateLimit:1.2.3.4'' = None"
proof -
  note f = demoLimits_fields
  have expired: "isWindowExpired 0 (windowMs demoLimits) 1500"
    by (simp add: isWindowExpired_def f)
  have kept1: "rateLimitEntries (runTimers 1500 staleStorage) = rateLimitEntries staleStorage"
    by (rule runTimers_early) (simp add: stale_storage(2))
  have check1: "checkRateLimitOnHost ''1.2.3.4'' demoLimits None (1500, 1500) staleStorage
       = (\<lparr> allowed = True, remaining = 2, resetTime = 2500, retryAfter = None, reason = None \<rparr>,
          runTimers 1500 staleStorage)"
    using check_expired_window [of "runTimers 1500 staleStorage" _ 1500]
    by (simp add: checkRateLimitOnHost_def kept1 stale_storage(1))
  have kept2: "rateLimitEntries (runTimers 1504 lateStorage) = rateLimitEntries lateStorage"
    by (rule runTimers_early) (simp add: late_storage(2))
  have check2: "fst (checkRateLimitOnHost ''1.2.3.4'' demoLimits None (1504, 1504) lateStorage)
       = \<lparr> allowed = True, remaining = 2, resetTime = 2504, retryAfter = None, reason = None \<rparr>"
    using check_expired_window [of "runTimers 1504 lateStorage" _ 1504]
    by (simp add: checkRateLimitOnHost_def kept2 late_storage(1))
  have fresh: "rateLimitEntries
         (runTimers 1504 (recordAttemptsOnHost ''1.2.3.4'' demoLimits False None lateAttempts
            createMemoryRateLimitStorage))
         ''rateLimit:1.2.3.4''
       = Some \<lparr> attempts = 4, firstAttempt = 1500, lastAttempt = 1503, blockedUntil = None \<rparr>"
    by (simp add: lateAttempts_def limit_defs f)
  have check3: "fst (checkRateLimitOnHost ''1.2.3.4'' demoLimits None (1504, 1504)
            (recordAttemptsOnHost ''1.2.3.4'' demoLimits False None lateAttempts
               createMemoryRateLimitStorage))
       = \<lparr> allowed = False, remaining = 0, resetTime = 6504, retryAfter = Some 5000,
           reason = Some ''Rate limit exceeded'' \<rparr>"
    by (simp add: checkRateLimitOnHost_def checkRateLimit_def checkIPSecurity_def
        isWhitelisted_def isBlacklisted_def checkRateLimitEntry_def getRateLimitEntry_def fresh
        isBlocked_def isWindowExpired_def f)
  have before: "rateLimitEntries (runTimers 4999 lateStorage) ''rateLimit:1.2.3.4''
       = Some \<lparr> attempts = 6, firstAttempt = 0, lastAttempt = 1503, blockedUntil = None \<rparr>"
    using runTimers_early [of 4999 lateStorage] by (simp add: late_storage)
  have after: "rateLimitEntries (runTimers 5000 lateStorage) ''rateLimit:1.2.3.4'' = None"
    by (simp add: runTimers_def late_storage(2))
  from stale_storage(1) expired check1 kept1 late_storage(1) check2 check3 before after
  show ?thesis by simp
qed

section \<open>Locking an account\<close>

text \<open>
  C9, as amended. Brute-force protection enabled, ten failed attempts allowed, the count
  reset on success. The address is on neither list, the user id is not empty, and the
  user's entry, if it has one, holds a count that is not negative and no lock. Ten
  \<open>recordAttempt(success = false)\<close> calls are made for the user, and then
  \<open>checkRateLimit\<close> for that user, all before a cleanup timer for the user's entry has
  run: up to some time \<open>H\<close> the host runs timers, no older timer for the user is due by
  \<open>H\<close>, and each failure is less than the timer's delay before \<open>H\<close> (the delay is
  \<open>lockoutDurationMs\<close>, and 1 ms when that is above 2147483647 or below 1). Then the
  check is refused with the reason "Account locked due to too many failed attempts" and
  stores \<open>lockedUntil = now + lockoutDurationMs\<close>. And \<open>recordAttempt(success = true)\<close>
  for a user with a non-empty id, in any state, removes its entry: its count of failed
  attempts is zero again.
\<close>

theorem ten_failures_lock_the_account:
  assumes en: "bf_enabled (bruteForce options)"
    and mx: "maxFailedAttempts (bruteForce options) = 10"
    and reset: "resetCountOnSuccess (bruteForce options)"
    and user: "userId \<noteq> []"
    and listed: "\<not> isWhitelisted ident (whitelist options)"
      "\<not> isBlacklisted ident (blacklist options)"
    and ten: "length calls = 10"
    and prior: "0 \<le> failedCount st userId" "lockOf st userId = None"
    and quiet: "noTimerBefore userId H st"
    and soon: "list_all (\<lambda>c. fst c \<le> H \<and> H < snd c + timeoutDelay (lockoutDurationMs (bruteForce options))) calls"
      "fst check \<le> H"
  shows "fst (checkRateLimitOnHost ident options (Some userId) check
                (recordAttemptsOnHost ident options False (Some userId) calls st))
           = \<lparr> allowed = False, remaining = 0,
               resetTime = snd check + lockoutDurationMs (bruteForce options),
               retryAfter = Some (lockoutDurationMs (bruteForce options)),
               reason = Some lockedReason \<rparr>
         \<and> lockOf (snd (checkRateLimitOnHost ident options (Some userId) check
                (recordAttemptsOnHost ident options False (Some userId) calls st))) userId
           = Some (snd check + lockoutDurationMs (bruteForce options))
         \<and> bruteForceEntries (recordAttempt ident options True (Some userId) now' st') userId
           = None
         \<and> failedCount (recordAttempt ident options True (Some userId) now' st') userId = 0"
proof -
  let ?st10 = "recordAttemptsOnHost ident options False (Some userId) calls st"
  let ?st = "runTimers (fst check) ?st10"
  let ?now = "snd check"
  from failed_attempts_count [OF en user quiet soon(1), where ident = ident] ten
  have count: "failedCount ?st10 userId = failedCount st userId + 10"
    and lock: "lockOf ?st10 userId = lockOf st userId"
    and quiet10: "noTimerBefore userId H ?st10"
    and some: "bruteForceEntries ?st10 userId \<noteq> None"
    by auto
  from runTimers_keeps_user(1) [OF quiet10 soon(2)]
  have kept: "bruteForceEntries ?st userId = bruteForceEntries ?st10 userId" .
  from some obtain e where e10: "bruteForceEntries ?st10 userId = Some e" by blast
  with kept have e: "bruteForceEntries ?st userId = Some e" by simp
  from e10 count lock prior have full: "10 \<le> failedAttempts e" and nolock: "lockedUntil e = None"
    by (simp_all add: failedCount_def lockOf_def)
  have ip: "checkIPSecurity ident options ?now = None"
    using listed by (simp add: checkIPSecurity_def)
  have bf: "checkBruteForceProtection userId options ?now ?st
      = (Some \<lparr> allowed = False, remaining = 0,
                 resetTime = ?now + lockoutDurationMs (bruteForce options),
                 retryAfter = Some (lockoutDurationMs (bruteForce options)),
                 reason = Some lockedReason \<rparr>,
         saveBruteForceEntry userId
           (e\<lparr> lockedUntil := Some (?now + lockoutDurationMs (bruteForce options)) \<rparr>)
           (lockoutDurationMs (bruteForce options)) ?now ?st)"
    using en mx e full nolock by (simp add: checkBruteForceProtection_def getBruteForceEntry_def)
  have check: "checkRateLimitOnHost ident options (Some userId) check ?st10
      = (\<lparr> allowed = False, remaining = 0,
            resetTime = ?now + lockoutDurationMs (bruteForce options),
            retryAfter = Some (lockoutDurationMs (bruteForce options)),
            reason = Some lockedReason \<rparr>,
         saveBruteForceEntry userId
           (e\<lparr> lockedUntil := Some (?now + lockoutDurationMs (bruteForce options)) \<rparr>)
           (lockoutDurationMs (bruteForce options)) ?now ?st)"
    using user by (simp add: checkRateLimitOnHost_def checkRateLimit_def ip bf)
  have cleared: "bruteForceEntries (recordAttempt ident options True (Some userId) now' st') userId
           = None"
    using en reset user
    by (simp add: recordAttempt_def recordBruteForceAttempt_def clearBruteForceEntry_def Let_def
        recordRateLimitAttempt_bruteForce)
  from check cleared show ?thesis
    by (simp add: lockOf_def failedCount_def saveBruteForceEntry_def)
qed

text \<open>
  The default options: user \<open>u1\<close> fails once a second and is locked after ten failures;
  after five failures a success brings the count from five to zero.
\<close>

theorem ten_failures_lock_the_account_witness:
  "bf_enabled (bruteForce demoLimits)
   \<and> maxFailedAttempts (bruteForce demoLimits) = 10
   \<and> resetCountOnSuccess (bruteForce demoLimits)
   \<and> \<not> isWhitelisted ''*'' (whitelist demoLimits)
   \<and> \<not> isBlacklisted ''*'' (blacklist demoLimits)
   \<and> length tenFailures = 10
   \<and> failedCount createMemoryRateLimitStorage ''u1'' = 0
   \<and> lockOf createMemoryRateLimitStorage ''u1'' = None
   \<and> noTimerBefore ''u1'' 11000 createMemoryRateLimitStorage
   \<and> list_all (\<lambda>c. fst c \<le> 11000 \<and> 11000 < snd c + timeoutDelay (lockoutDurationMs (bruteForce demoLimits)))
        tenFailures
   \<and> fst (checkRateLimitOnHost ''*'' demoLimits (Some ''u1'') (11000, 11000)
            (recordAttemptsOnHost ''*'' demoLimits False (Some ''u1'') tenFailures
               createMemoryRateLimitStorage))
       = \<lparr> allowed = False, remaining = 0, resetTime = 3611000, retryAfter = Some 3600000,
           reason = Some ''Account locked due to too many failed attempts'' \<rparr>
   \<and> lockOf (snd (checkRateLimitOnHost ''*'' demoLimits (Some ''u1'') (11000, 11000)
            (recordAttemptsOnHost ''*'' demoLimits False (Some ''u1'') tenFailures
               createMemoryRateLimitStorage))) ''u1''
       = Some 3611000
   \<and> failedCount (recordAttemptsOnHost ''*'' demoLimits False (Some ''u1'') fiveFailures
                     createMemoryRateLimitStorage) ''u1'' = 5
   \<and> failedCount (recordAttempt ''*'' demoLimits True (Some ''u1'') 6000
                     (recordAttemptsOnHost ''*'' demoLimits False (Some ''u1'') fiveFailures
                        createMemoryRateLimitStorage)) ''u1'' = 0"
proof -
  note f = demoLimits_fields
  have user: "''u1'' \<noteq> ([]::string)" by simp
  have listed: "\<not> isWhitelisted ''*'' (whitelist demoLimits)"
    "\<not> isBlacklisted ''*'' (blacklist demoLimits)"
    by (simp_all add: isWhitelisted_def isBlacklisted_def f)
  have ten: "length tenFailures = 10" by (simp add: tenFailures_def)
  have prior: "0 \<le> failedCount createMemoryRateLimitStorage ''u1''"
    "lockOf createMemoryRateLimitStorage ''u1'' = None"
    "failedCount createMemoryRateLimitStorage ''u1'' = 0"
    by (simp_all add: failedCount_def lockOf_def createMemoryRateLimitStorage_def)
  have quiet: "noTimerBefore ''u1'' H createMemoryRateLimitStorage" for H
    by (simp add: noTimerBefore_def createMemoryRateLimitStorage_def)
  have soon: "list_all (\<lambda>c. fst c \<le> 11000
                  \<and> 11000 < snd c + timeoutDelay (lockoutDurationMs (bruteForce demoLimits))) tenFailures"
    by (simp add: tenFailures_def f timeoutDelay_def)
  have soon5: "list_all (\<lambda>c. fst c \<le> 11000
                  \<and> 11000 < snd c + timeoutDelay (lockoutDurationMs (bruteForce demoLimits))) fiveFailures"
    by (simp add: fiveFailures_def f timeoutDelay_def)
  have five: "failedCount (recordAttemptsOnHost ''*'' demoLimits False (Some ''u1'') fiveFailures
                     createMemoryRateLimitStorage) ''u1'' = 5"
    using failed_attempts_count [OF f(9) user quiet soon5, where ident = "''*''"] prior(3)
    by (simp add: fiveFailures_def)
  have hcheck: "fst (11000 :: time, 11000 :: time) \<le> 11000" by simp
  from ten_failures_lock_the_account
      [OF f(9) f(10) f(12) user listed ten prior(1) prior(2) quiet soon hcheck, where now' = 6000
        and st' = "recordAttemptsOnHost ''*'' demoLimits False (Some ''u1'') fiveFailures
                     createMemoryRateLimitStorage"]
    f(9) f(10) f(12) listed ten prior quiet [of 11000] soon five
  show ?thesis by (simp add: f lockedReason_def)
qed

text \<open>
  The claim as stated fails in two ways. For an address on the whitelist the check is
  allowed although ten failures are counted for the user. And ten failures that are
  more than \<open>lockoutDurationMs\<close> apart are never counted together: each cleanup timer
  deletes the entry before the next failure, and the check after the tenth is allowed.
\<close>

theorem ten_failures_counterexample:
  "bf_enabled (bruteForce whitelistLimits)
   \<and> maxFailedAttempts (bruteForce whitelistLimits) = 10
   \<and> resetCountOnSuccess (bruteForce whitelistLimits)
   \<and> length tenFailures = 10
   \<and> failedCount (recordAttemptsOnHost ''10.0.0.1'' whitelistLimits False (Some ''u1'') tenFailures
                     createMemoryRateLimitStorage) ''u1'' = 10
   \<and> fst (checkRateLimitOnHost ''10.0.0.1'' whitelistLimits (Some ''u1'') (11000, 11000)
            (recordAttemptsOnHost ''10.0.0.1'' whitelistLimits False (Some ''u1'') tenFailures
               createMemoryRateLimitStorage))
       = \<lparr> allowed = True, remaining = 3, resetTime = 12000, retryAfter = None, reason = None \<rparr>
   \<and> bf_enabled (bruteForce demoLimits)
   \<and> maxFailedAttempts (bruteForce demoLimits) = 10
   \<and> resetCountOnSuccess (bruteForce demoLimits)
   \<and> length slowFailures = 10
   \<and> fst (checkRateLimitOnHost ''*'' demoLimits (Some ''u1'') (36000001, 36000001)
            (recordAttemptsOnHost ''*'' demoLimits False (Some ''u1'') slowFailures
               createMemoryRateLimitStorage))
       = \<lparr> allowed = True, remaining = 1, resetTime = 36001000, retryAfter = None, reason = None \<rparr>"
proof -
  note w = whitelistLimits_fields
  note f = demoLimits_fields
  have user: "''u1'' \<noteq> ([]::string)" by simp
  have quiet: "noTimerBefore ''u1'' 11000 createMemoryRateLimitStorage"
    by (simp add: noTimerBefore_def createMemoryRateLimitStorage_def)
  have soon: "list_all (\<lambda>c. fst c \<le> 11000
                \<and> 11000 < snd c + timeoutDelay (lockoutDurationMs (bruteForce whitelistLimits)))
              tenFailures"
    by (simp add: tenFailures_def w timeoutDelay_def)
  have counted: "failedCount (recordAttemptsOnHost ''10.0.0.1'' whitelistLimits False (Some ''u1'')
                     tenFailures createMemoryRateLimitStorage) ''u1'' = 10"
    using failed_attempts_count [OF w(4) user quiet soon, where ident = "''10.0.0.1''"]
    by (simp add: tenFailures_def failedCount_def createMemoryRateLimitStorage_def)
  have allowed1: "fst (checkRateLimitOnHost ''10.0.0.1'' whitelistLimits (Some ''u1'') (11000, 11000) st)
       = \<lparr> allowed = True, remaining = 3, resetTime = 12000, retryAfter = None, reason = None \<rparr>"
    for st
    by (simp add: checkRateLimitOnHost_def checkRateLimit_def checkIPSecurity_def
        isWhitelisted_def w)
  have ten: "length tenFailures = 10" "length slowFailures = 10"
    by (simp_all add: tenFailures_def slowFailures_def)
  let ?slow = "recordAttemptsOnHost ''*'' demoLimits False (Some ''u1'') slowFailures
                 createMemoryRateLimitStorage"
  from slow_failures have after: "oneFailureAt 36000000 (runTimers 36000001 ?slow)"
    by (simp add: oneFailureAt_def runTimers_def)
  have allowed2: "fst (checkRateLimitOnHost ''*'' demoLimits (Some ''u1'') (36000001, 36000001) ?slow)
       = \<lparr> allowed = True, remaining = 1, resetTime = 36001000, retryAfter = None, reason = None \<rparr>"
    using after
    by (simp add: oneFailureAt_def checkRateLimitOnHost_def checkRateLimit_def checkIPSecurity_def
        isWhitelisted_def isBlacklisted_def checkBruteForceProtection_def getBruteForceEntry_def
        checkRateLimitEntry_def getRateLimitEntry_def isBlocked_def isWindowExpired_def
        calculateRemainingAttempts_def f)
  from w(4) w(5) w(7) ten counted allowed1 f(9) f(10) f(12) allowed2 show ?thesis by simp
qed

end
